theory Spec2Isabelle
  imports Main "HOL-Library.AList" "HOL-Library.Char_ord"
begin

section \<open>The synchronous trigger poll loop\<close>

text \<open>
  Source: \<^verbatim>\<open>src/src/cli.ts\<close>, command \<^verbatim>\<open>jobs trigger <jobId> --sync\<close>.

  A job of the list response carries, as far as the loop reads it, its id, its
  \<^verbatim>\<open>lastRunAt\<close> and its \<^verbatim>\<open>failCount\<close>. The field \<^verbatim>\<open>lastRunAt\<close> is \<open>None\<close> when
  the JavaScript value is absent or falsy; otherwise it holds what
  \<^verbatim>\<open>new Date(job.lastRunAt).getTime()\<close> evaluates to: a number of milliseconds, or
  \<^verbatim>\<open>NaN\<close> for a value that is not a date. \<^verbatim>\<open>failCount\<close> is the server's counter of
  failed runs.
\<close>

datatype timestamp = Time int | InvalidDate

record job =
  job_id :: string
  lastRunAt :: "timestamp option"
  failCount :: nat

text \<open>
  One poll: the outcome of \<^verbatim>\<open>api.listJobs()\<close> (\<open>Inl\<close> the message of the error it
  throws, \<open>Inr\<close> the \<^verbatim>\<open>jobs\<close> field of the body, \<open>None\<close> when the body has none) and
  the value \<^verbatim>\<open>Date.now()\<close> has in that iteration.
\<close>

record poll =
  response :: "string + job list option"
  now :: int

datatype run_status = Failed | Success

record run_result =
  status :: run_status
  run_lastRunAt :: timestamp

text \<open>
  The variables of the loop. \<open>slept\<close> adds up the milliseconds passed to
  \<^verbatim>\<open>setTimeout\<close>; \<open>thrown\<close> holds the error that left the loop, if one did.
\<close>

record loop_state =
  attempts :: nat
  completed :: bool
  result :: "run_result option"
  slept :: nat
  thrown :: "string option"

definition maxAttempts :: nat where
  "maxAttempts = 150"

definition find_job :: "string \<Rightarrow> job list option \<Rightarrow> job option" where
  "find_job jobId jobs =
     (case jobs of None \<Rightarrow> None | Some js \<Rightarrow> List.find (\<lambda>j. job_id j = jobId) js)"

definition poll_body :: "string \<Rightarrow> poll \<Rightarrow> loop_state \<Rightarrow> loop_state" where
  "poll_body jobId p st =
     (let st1 = st\<lparr>slept := slept st + 2000\<rparr>;
          st2 = st1\<lparr>attempts := attempts st1 + 1\<rparr>
      in case response p of
           Inl e \<Rightarrow> st2\<lparr>thrown := Some e\<rparr>
         | Inr jobs \<Rightarrow>
             (case find_job jobId jobs of
                None \<Rightarrow> st2
              | Some j \<Rightarrow>
                  (case lastRunAt j of
                     None \<Rightarrow> st2
                   | Some InvalidDate \<Rightarrow> st2
                   | Some (Time lastRunTime) \<Rightarrow>
                       if now p - lastRunTime < 30000
                       then st2\<lparr>completed := True,
                                result := Some \<lparr>status = (if failCount j > 0 then Failed else Success),
                                                run_lastRunAt = Time lastRunTime\<rparr>\<rparr>
                       else st2)))"

lemma attempts_poll_body: "attempts (poll_body jobId p st) = Suc (attempts st)"
  by (simp add: poll_body_def Let_def split: sum.split option.split timestamp.split)

function poll_while :: "string \<Rightarrow> (nat \<Rightarrow> poll) \<Rightarrow> loop_state \<Rightarrow> loop_state" where
  "poll_while jobId env st =
     (if attempts st < maxAttempts \<and> \<not> completed st \<and> thrown st = None
      then poll_while jobId env (poll_body jobId (env (attempts st)) st)
      else st)"
  by pat_completeness auto
termination
  by (relation "measure (\<lambda>(jobId, env, st). maxAttempts - attempts st)")
     (auto simp: attempts_poll_body)

declare poll_while.simps [simp del]

definition initial_state :: loop_state where
  "initial_state = \<lparr>attempts = 0, completed = False, result = None, slept = 0, thrown = None\<rparr>"

text \<open>What the command tells the user, and the exit status of the process.\<close>

datatype report =
    CompletedSuccessfully timestamp
  | ExecutionFailed timestamp
  | StatusUnknownTimeout
  | SpinnerFail string

record outcome =
  reported :: report
  exit_code :: nat

definition trigger_sync :: "string \<Rightarrow> string + unit \<Rightarrow> (nat \<Rightarrow> poll) \<Rightarrow> outcome" where
  "trigger_sync jobId triggered env =
     (case triggered of
        Inl e \<Rightarrow> \<lparr>reported = SpinnerFail e, exit_code = 1\<rparr>
      | Inr _ \<Rightarrow>
          (let st = poll_while jobId env initial_state
           in case thrown st of
                Some e \<Rightarrow> \<lparr>reported = SpinnerFail e, exit_code = 1\<rparr>
              | None \<Rightarrow>
                  (case (completed st, result st) of
                     (True, Some r) \<Rightarrow>
                       (if status r = Success
                        then \<lparr>reported = CompletedSuccessfully (run_lastRunAt r), exit_code = 0\<rparr>
                        else \<lparr>reported = ExecutionFailed (run_lastRunAt r), exit_code = 0\<rparr>)
                   | _ \<Rightarrow> \<lparr>reported = StatusUnknownTimeout, exit_code = 0\<rparr>)))"

text \<open>
  The claim's words: a fetched job's run is the triggered run when the job has a
  \<^verbatim>\<open>lastRunAt\<close> and the poll time minus it is below 30000 milliseconds.
\<close>

definition is_triggered_run :: "job \<Rightarrow> int \<Rightarrow> bool" where
  "is_triggered_run j poll_time =
     (case lastRunAt j of
        Some (Time t) \<Rightarrow> poll_time - t < 30000
      | _ \<Rightarrow> False)"

definition fetched :: "string \<Rightarrow> poll \<Rightarrow> job option" where
  "fetched jobId p = (case response p of Inl e \<Rightarrow> None | Inr jobs \<Rightarrow> find_job jobId jobs)"

definition poll_ok :: "poll \<Rightarrow> bool" where
  "poll_ok p = (case response p of Inl e \<Rightarrow> False | Inr jobs \<Rightarrow> True)"

definition finds_run :: "string \<Rightarrow> poll \<Rightarrow> bool" where
  "finds_run jobId p =
     (case fetched jobId p of None \<Rightarrow> False | Some j \<Rightarrow> is_triggered_run j (now p))"

section \<open>Config store and API client\<close>

text \<open>
  Source: \<^verbatim>\<open>src/unnamed/part_002\<close> (the module \<^verbatim>\<open>api-client\<close> that \<^verbatim>\<open>cli.ts\<close> imports).
\<close>

subsection \<open>JavaScript values and errors\<close>

text \<open>
  A JSON document. An object is the list of its members as the text has them; as
  \<^verbatim>\<open>JSON.parse\<close> does, a lookup takes the last member of a name. \<^verbatim>\<open>undefined\<close> is \<open>None\<close>
  wherever a value may be missing. Numbers are opaque to the code modelled here; they
  are integers in the model.
\<close>

datatype json =
    JNull
  | JBool bool
  | JNum int
  | JStr string
  | JArr "json list"
  | JObj "(string \<times> json) list"

datatype exn =
    Error string
  | TypeError string
  | SyntaxError
  | SystemError string

definition digit_char :: "nat \<Rightarrow> char" where
  "digit_char d = char_of (of_char CHR ''0'' + d)"

function show_nat :: "nat \<Rightarrow> string" where
  "show_nat n = (if n < 10 then [digit_char n] else show_nat (n div 10) @ [digit_char (n mod 10)])"
  by pat_completeness auto
termination
  by (relation "measure id") auto

declare show_nat.simps [simp del]

text \<open>Truthiness of a value that may be \<^verbatim>\<open>undefined\<close>.\<close>

fun truthy :: "json option \<Rightarrow> bool" where
  "truthy None = False"
| "truthy (Some JNull) = False"
| "truthy (Some (JBool b)) = b"
| "truthy (Some (JNum n)) = (n \<noteq> 0)"
| "truthy (Some (JStr s)) = (s \<noteq> [])"
| "truthy (Some (JArr xs)) = True"
| "truthy (Some (JObj kvs)) = True"

text \<open>
  Assigning the properties of a source to a target object, one after the other: an
  existing property is overwritten in place, a new one is added at the end.
\<close>

definition assign :: "(string \<times> json) list \<Rightarrow> (string \<times> json) list \<Rightarrow> (string \<times> json) list" where
  "assign target source = fold (\<lambda>(k, v). AList.update k v) source target"

text \<open>
  The own enumerable properties of a value, as a spread reads them: the members of an
  object (a repeated name keeps its last value), the indexed elements of an array, the
  indexed characters of a string, none for the other values.
\<close>

definition indexed :: "json list \<Rightarrow> (string \<times> json) list" where
  "indexed xs = zip (map show_nat [0..<length xs]) xs"

fun own_props :: "json \<Rightarrow> (string \<times> json) list" where
  "own_props (JObj kvs) = assign [] kvs"
| "own_props (JArr xs) = indexed xs"
| "own_props (JStr s) = indexed (map (\<lambda>c. JStr [c]) s)"
| "own_props v = []"

text \<open>
  Reading the property \<^verbatim>\<open>apiUrl\<close> or \<^verbatim>\<open>apiKey\<close> of a value: a \<^verbatim>\<open>TypeError\<close> on \<^verbatim>\<open>null\<close>,
  the member of an object, \<^verbatim>\<open>undefined\<close> on every other value.
\<close>

fun get_prop :: "json \<Rightarrow> string \<Rightarrow> exn + json option" where
  "get_prop JNull name = Inl (TypeError (''Cannot read properties of null (reading '' @ name @ '')''))"
| "get_prop (JObj kvs) name = Inr (map_of (rev kvs) name)"
| "get_prop v name = Inr None"

subsection \<open>The config file\<close>

text \<open>
  The text of the config file is kept as what \<^verbatim>\<open>JSON.parse\<close> makes of it: a
  \<^verbatim>\<open>SyntaxError\<close>, or a document. \<^verbatim>\<open>JSON.stringify\<close> writes a text that parses back to
  the document written.

  The file system, as far as the module touches it: whether \<^verbatim>\<open>~/.clawtick\<close> exists,
  whether \<^verbatim>\<open>mkdirSync\<close> can create it, whether \<^verbatim>\<open>writeFileSync\<close> can write the config
  file, and the config file itself (missing; present but \<^verbatim>\<open>readFileSync\<close> throws; present
  with a text).
\<close>

datatype file_text = Malformed | Wellformed json

datatype config_file = Missing | Unreadable | Holds file_text

record filesystem =
  dir_exists :: bool
  dir_creatable :: bool
  file_writable :: bool
  config_file :: config_file

definition DEFAULT_API_URL :: string where
  "DEFAULT_API_URL = ''https://api.clawtick.com''"

definition default_config :: json where
  "default_config = JObj [(''apiUrl'', JStr DEFAULT_API_URL), (''apiKey'', JStr [])]"

definition ensureConfigDir :: "filesystem \<Rightarrow> exn + filesystem" where
  "ensureConfigDir fs =
     (if \<not> dir_exists fs
      then (if dir_creatable fs then Inr (fs\<lparr>dir_exists := True\<rparr>) else Inl (SystemError ''mkdir''))
      else Inr fs)"

definition existsSync_CONFIG_FILE :: "filesystem \<Rightarrow> bool" where
  "existsSync_CONFIG_FILE fs = (config_file fs \<noteq> Missing)"

definition readFileSync_CONFIG_FILE :: "filesystem \<Rightarrow> exn + file_text" where
  "readFileSync_CONFIG_FILE fs =
     (case config_file fs of Holds t \<Rightarrow> Inr t | _ \<Rightarrow> Inl (SystemError ''read''))"

definition JSON_parse :: "file_text \<Rightarrow> exn + json" where
  "JSON_parse t = (case t of Malformed \<Rightarrow> Inl SyntaxError | Wellformed v \<Rightarrow> Inr v)"

definition JSON_stringify :: "json \<Rightarrow> file_text" where
  "JSON_stringify v = Wellformed v"

definition writeFileSync_CONFIG_FILE :: "filesystem \<Rightarrow> file_text \<Rightarrow> exn + filesystem" where
  "writeFileSync_CONFIG_FILE fs t =
     (if dir_exists fs \<and> file_writable fs then Inr (fs\<lparr>config_file := Holds t\<rparr>)
      else Inl (SystemError ''write''))"

text \<open>
  \<^verbatim>\<open>loadConfig\<close>: the directory is ensured outside the \<^verbatim>\<open>try\<close>; the \<^verbatim>\<open>try\<close> block reads
  and parses, and its \<^verbatim>\<open>catch\<close> returns the default config whatever was thrown.
\<close>

definition loadConfig :: "filesystem \<Rightarrow> exn + (json \<times> filesystem)" where
  "loadConfig fs =
     (case ensureConfigDir fs of
        Inl e \<Rightarrow> Inl e
      | Inr fs1 \<Rightarrow>
          if \<not> existsSync_CONFIG_FILE fs1 then Inr (default_config, fs1)
          else (case (case readFileSync_CONFIG_FILE fs1 of
                        Inl e \<Rightarrow> Inl e
                      | Inr t \<Rightarrow> JSON_parse t) of
                  Inr v \<Rightarrow> Inr (v, fs1)
                | Inl e \<Rightarrow> Inr (default_config, fs1)))"

text \<open>
  \<^verbatim>\<open>saveConfig(config)\<close> writes \<^verbatim>\<open>{ ...current, ...config }\<close> back. Its argument is the
  list of the properties of the object passed.
\<close>

definition saveConfig :: "filesystem \<Rightarrow> (string \<times> json) list \<Rightarrow> exn + filesystem" where
  "saveConfig fs config =
     (case ensureConfigDir fs of
        Inl e \<Rightarrow> Inl e
      | Inr fs1 \<Rightarrow>
          (case loadConfig fs1 of
             Inl e \<Rightarrow> Inl e
           | Inr (current, fs2) \<Rightarrow>
               (let merged = JObj (assign (assign [] (own_props current)) config)
                in writeFileSync_CONFIG_FILE fs2 (JSON_stringify merged))))"

subsection \<open>The client\<close>

text \<open>The process as the module sees it: the file system and \<^verbatim>\<open>process.env\<close>.\<close>

record process =
  files :: filesystem
  environ :: "string \<rightharpoonup> string"

record ApiClient =
  apiUrl :: "json option"
  apiKey :: "json option"

text \<open>The constructor reads the config file and nothing else.\<close>

definition new_ApiClient :: "process \<Rightarrow> exn + (ApiClient \<times> process)" where
  "new_ApiClient p =
     (case loadConfig (files p) of
        Inl e \<Rightarrow> Inl e
      | Inr (config, fs1) \<Rightarrow>
          (case get_prop config ''apiUrl'' of
             Inl e \<Rightarrow> Inl e
           | Inr url \<Rightarrow>
               (case get_prop config ''apiKey'' of
                  Inl e \<Rightarrow> Inl e
                | Inr key \<Rightarrow> Inr (\<lparr>apiUrl = url, apiKey = key\<rparr>, p\<lparr>files := fs1\<rparr>))))"

definition isAuthenticated :: "ApiClient \<Rightarrow> bool" where
  "isAuthenticated c = truthy (apiKey c)"

text \<open>
  A request as \<^verbatim>\<open>fetch\<close> receives it: the base URL and the path, the method, the key
  sent as bearer token and the body. A response: its status and its body, which is
  either not JSON or, in the server's format, an object whose \<^verbatim>\<open>error\<close> member is a
  string when present. \<^verbatim>\<open>res.ok\<close> is true for a status from 200 to 299.
\<close>

record http_request =
  req_base :: "json option"
  req_path :: string
  req_method :: string
  req_bearer :: "json option"
  req_body :: "json option"

record api_object =
  data_error :: "string option"
  members :: "(string \<times> json) list"

datatype response_body = NotJson | Body api_object

record http_response =
  res_status :: nat
  res_body :: response_body

definition ok :: "http_response \<Rightarrow> bool" where
  "ok res = (200 \<le> res_status res \<and> res_status res \<le> 299)"


definition empty_object :: api_object where
  "empty_object = \<lparr>data_error = None, members = []\<rparr>"

text \<open>
  \<^verbatim>\<open>request\<close> gives what the method returns or throws, together with the requests it
  has passed to \<^verbatim>\<open>fetch\<close>. \<open>fetch\<close> answers with a response or with the error of a
  failed connection.
\<close>

definition request ::
  "ApiClient \<Rightarrow> (http_request \<Rightarrow> exn + http_response) \<Rightarrow> string \<Rightarrow> string \<Rightarrow> json option
     \<Rightarrow> (exn + api_object) \<times> http_request list" where
  "request c fetch method path payload =
     (if \<not> truthy (apiKey c) then (Inl (Error ''Not authenticated. Run: clawtick login''), [])
      else
        (let req = \<lparr>req_base = apiUrl c, req_path = path, req_method = method,
                    req_bearer = apiKey c,
                    req_body = (if truthy payload then payload else None)\<rparr>
         in case fetch req of
              Inl e \<Rightarrow> (Inl e, [req])
            | Inr res \<Rightarrow>
                (let data = (case res_body res of NotJson \<Rightarrow> empty_object | Body d \<Rightarrow> d)
                 in if \<not> ok res
                    then (Inl (Error (case data_error data of
                                        None \<Rightarrow> ''API error: '' @ show_nat (res_status res)
                                      | Some msg \<Rightarrow>
                                          if msg \<noteq> [] then msg
                                          else ''API error: '' @ show_nat (res_status res))), [req])
                    else (Inr data, [req]))))"

definition getStatus ::
  "ApiClient \<Rightarrow> (http_request \<Rightarrow> exn + http_response) \<Rightarrow> (exn + api_object) \<times> http_request list" where
  "getStatus c fetch = request c fetch ''GET'' ''/v1/status'' None"

section \<open>Input validation\<close>

text \<open>
  Source: \<^verbatim>\<open>src/unnamed/part_003\<close> (the module \<^verbatim>\<open>validation\<close> that \<^verbatim>\<open>cli.ts\<close> imports;
  \<^verbatim>\<open>src/src/validation.ts\<close> is its first half).

  A string is the list of its code units; the model has the code units below 256.
\<close>

subsection \<open>Regular expressions\<close>

text \<open>
  The patterns of the validators are all of the form \<^verbatim>\<open>/^...$/\<close> and used with
  \<^verbatim>\<open>test\<close>: the test succeeds when the whole string is in the language of the pattern.
  A pattern is a term of \<open>rx\<close>; \<open>rx_test\<close> decides membership by taking the derivative of
  the pattern along the string.
\<close>

datatype rx =
    Nothing
  | Empty
  | Sym "char \<Rightarrow> bool"
  | Alt rx rx
  | Seq rx rx
  | Star rx

definition Lit :: "char \<Rightarrow> rx" where
  "Lit c = Sym (\<lambda>x. x = c)"

definition Plus :: "rx \<Rightarrow> rx" where
  "Plus r = Seq r (Star r)"

definition Opt :: "rx \<Rightarrow> rx" where
  "Opt r = Alt r Empty"

text \<open>\<open>AtMost r n\<close> is \<^verbatim>\<open>r{0,n}\<close>; \<^verbatim>\<open>r{1,14}\<close> is \<open>Seq r (AtMost r 13)\<close>.\<close>

primrec AtMost :: "rx \<Rightarrow> nat \<Rightarrow> rx" where
  "AtMost r 0 = Empty"
| "AtMost r (Suc n) = Opt (Seq r (AtMost r n))"

fun nullable :: "rx \<Rightarrow> bool" where
  "nullable Nothing = False"
| "nullable Empty = True"
| "nullable (Sym P) = False"
| "nullable (Alt r s) = (nullable r \<or> nullable s)"
| "nullable (Seq r s) = (nullable r \<and> nullable s)"
| "nullable (Star r) = True"

fun deriv :: "char \<Rightarrow> rx \<Rightarrow> rx" where
  "deriv c Nothing = Nothing"
| "deriv c Empty = Nothing"
| "deriv c (Sym P) = (if P c then Empty else Nothing)"
| "deriv c (Alt r s) = Alt (deriv c r) (deriv c s)"
| "deriv c (Seq r s) =
     (if nullable r then Alt (Seq (deriv c r) s) (deriv c s) else Seq (deriv c r) s)"
| "deriv c (Star r) = Seq (deriv c r) (Star r)"

definition rx_test :: "rx \<Rightarrow> string \<Rightarrow> bool" where
  "rx_test r s = nullable (fold deriv s r)"



subsection \<open>Character classes and string functions\<close>

definition is_digit :: "char \<Rightarrow> bool" where
  "is_digit c = (CHR ''0'' \<le> c \<and> c \<le> CHR ''9'')"

definition is_lower :: "char \<Rightarrow> bool" where
  "is_lower c = (CHR ''a'' \<le> c \<and> c \<le> CHR ''z'')"

definition is_upper :: "char \<Rightarrow> bool" where
  "is_upper c = (CHR ''A'' \<le> c \<and> c \<le> CHR ''Z'')"

text \<open>
  White space, as \<^verbatim>\<open>trim\<close> and \<^verbatim>\<open>\s\<close> take it: tab, line feed, vertical tab, form feed,
  carriage return, space and no-break space.
\<close>

definition is_space :: "char \<Rightarrow> bool" where
  "is_space c = (c \<in> set [CHR 0x09, CHR 0x0A, CHR 0x0B, CHR 0x0C, CHR 0x0D, CHR 0x20, CHR 0xA0])"

definition trim :: "string \<Rightarrow> string" where
  "trim s = rev (dropWhile is_space (rev (dropWhile is_space s)))"

text \<open>
  \<^verbatim>\<open>toLowerCase\<close> and \<^verbatim>\<open>toUpperCase\<close> on the letters of ASCII. The other code units are
  left as they are: none of them becomes an ASCII letter that could complete one of the
  words the validators compare with.
\<close>

definition lower_char :: "char \<Rightarrow> char" where
  "lower_char c = (if is_upper c then char_of (of_char c + (32::nat)) else c)"

definition upper_char :: "char \<Rightarrow> char" where
  "upper_char c = (if is_lower c then char_of (of_char c - (32::nat)) else c)"

definition toLowerCase :: "string \<Rightarrow> string" where
  "toLowerCase s = map lower_char s"

definition toUpperCase :: "string \<Rightarrow> string" where
  "toUpperCase s = map upper_char s"

text \<open>
  \<^verbatim>\<open>s.split(/\s+/)\<close>: the pieces of the string between the maximal runs of white space
  (an empty piece where the string starts or ends with white space).
\<close>

lemma split_ws_shorter:
  "dropWhile (\<lambda>c. \<not> is_space c) s \<noteq> [] \<Longrightarrow>
   length (dropWhile is_space (dropWhile (\<lambda>c. \<not> is_space c) s)) < length s"
proof -
  assume ne: "dropWhile (\<lambda>c. \<not> is_space c) s \<noteq> []"
  then obtain c rest where cr: "dropWhile (\<lambda>c. \<not> is_space c) s = c # rest"
    by (cases "dropWhile (\<lambda>c. \<not> is_space c) s") auto
  then have "is_space c" using hd_dropWhile[of "\<lambda>c. \<not> is_space c" s] ne by auto
  then have "length (dropWhile is_space (c # rest)) \<le> length rest"
    by (simp add: length_dropWhile_le)
  moreover have "length (c # rest) \<le> length s"
    using cr length_dropWhile_le[of "\<lambda>c. \<not> is_space c" s] by simp
  ultimately show ?thesis using cr by simp
qed

function split_ws :: "string \<Rightarrow> string list" where
  "split_ws s =
     (let piece = takeWhile (\<lambda>c. \<not> is_space c) s;
          rest = dropWhile (\<lambda>c. \<not> is_space c) s
      in if rest = [] then [piece] else piece # split_ws (dropWhile is_space rest))"
  by pat_completeness auto
termination
  by (relation "measure length") (auto simp: split_ws_shorter)

declare split_ws.simps [simp del]

subsection \<open>The validators\<close>

text \<open>
  Every validator returns \<^verbatim>\<open>{ valid, error? }\<close>. Its argument is a string, as its
  signature says, so of the guard \<^verbatim>\<open>!x || typeof x !== 'string'\<close> the test for the empty
  string is what remains.
\<close>

record validation =
  valid :: bool
  error :: "string option"

definition reject :: "string \<Rightarrow> validation" where
  "reject msg = \<lparr>valid = False, error = Some msg\<rparr>"

definition accept :: validation where
  "accept = \<lparr>valid = True, error = None\<rparr>"

definition nl :: string where
  "nl = [CHR 0x0A]"

definition dq :: string where
  "dq = [CHR 0x22]"

fun join :: "string \<Rightarrow> string list \<Rightarrow> string" where
  "join sep [] = []"
| "join sep [x] = x"
| "join sep (x # y # ys) = x @ sep @ join sep (y # ys)"

text \<open>
  \<^verbatim>\<open>/^(\*|[0-9]+(-[0-9]+)?(\/[0-9]+)?)(,(\*|[0-9]+(-[0-9]+)?(\/[0-9]+)?))*$/\<close>
\<close>

definition cron_item :: rx where
  "cron_item =
     Alt (Lit CHR ''*'')
         (Seq (Plus (Sym is_digit))
              (Seq (Opt (Seq (Lit CHR ''-'') (Plus (Sym is_digit))))
                   (Opt (Seq (Lit CHR ''/'') (Plus (Sym is_digit))))))"

definition fieldPattern :: rx where
  "fieldPattern = Seq cron_item (Star (Seq (Lit CHR '','') cron_item))"

definition validateCronExpression :: "string \<Rightarrow> validation" where
  "validateCronExpression cron =
     (if cron = [] then reject ''Cron expression is required''
      else
        (let trimmed = trim cron in
         if length trimmed = 0 then reject ''Cron expression cannot be empty''
         else
           (let parts = split_ws trimmed in
            if length parts < 5 \<or> length parts > 6
            then reject (''Invalid cron expression: expected 5 fields, got '' @ show_nat (length parts)
                   @ nl @ nl @ ''Examples:'' @ nl
                   @ ''  */5 * * * * - Every 5 minutes'' @ nl
                   @ ''  0 9 * * * - Every day at 9 AM'' @ nl
                   @ ''  0 9 * * 1-5 - Every weekday at 9 AM'' @ nl @ nl
                   @ ''Use https://crontab.guru to build expressions.'')
            else
              (case List.find (\<lambda>part. part \<noteq> ''?'' \<and> \<not> rx_test fieldPattern part) parts of
                 Some part \<Rightarrow>
                   reject (''Invalid cron field: '' @ dq @ part @ dq @ nl @ nl
                           @ ''Use https://crontab.guru to build expressions.'')
               | None \<Rightarrow> accept))))"

text \<open>\<^verbatim>\<open>/^[a-zA-Z0-9\s\-_]+$/\<close>\<close>

definition name_char :: "char \<Rightarrow> bool" where
  "name_char c =
     (is_lower c \<or> is_upper c \<or> is_digit c \<or> is_space c \<or> c = CHR ''-'' \<or> c = CHR ''_'')"

definition namePattern :: rx where
  "namePattern = Plus (Sym name_char)"

definition validateJobName :: "string \<Rightarrow> validation" where
  "validateJobName name =
     (if name = [] then reject ''Job name is required''
      else
        (let trimmed = trim name in
         if length trimmed = 0 then reject ''Job name cannot be empty''
         else if length trimmed > 100 then reject ''Job name must be 100 characters or less''
         else if \<not> rx_test namePattern trimmed
         then reject ''Job name can only contain letters, numbers, spaces, hyphens, and underscores''
         else accept))"

definition validateMessage :: "string \<Rightarrow> validation" where
  "validateMessage message =
     (if message = [] then reject ''Message is required''
      else
        (let trimmed = trim message in
         if length trimmed = 0 then reject ''Message cannot be empty''
         else if length trimmed > 5000 then reject ''Message must be 5000 characters or less''
         else accept))"

definition validChannels :: "string list" where
  "validChannels =
     [''whatsapp'', ''telegram'', ''slack'', ''discord'', ''signal'', ''imessage'', ''googlechat'',
      ''mattermost'', ''matrix'', ''nostr'', ''msteams'', ''line'', ''zalo'', ''bluebubbles'',
      ''nextcloud-talk'']"

definition validateChannel :: "string \<Rightarrow> validation" where
  "validateChannel channel =
     (let trimmed = toLowerCase (trim channel) in
      if trimmed \<notin> set validChannels
      then reject (''Invalid channel: '' @ channel @ nl @ nl @ ''Valid channels:'' @ nl @ ''  ''
                   @ join '', '' validChannels)
      else accept)"

text \<open>\<^verbatim>\<open>/^-?\d+$/\<close>\<close>

definition chatIdPattern :: rx where
  "chatIdPattern = Seq (Opt (Lit CHR ''-'')) (Plus (Sym is_digit))"

definition validateTelegramChatId :: "string \<Rightarrow> validation" where
  "validateTelegramChatId chatId =
     (if chatId = [] then reject ''Telegram chat ID is required when using Telegram channel''
      else if \<not> rx_test chatIdPattern (trim chatId)
      then reject (''Invalid Telegram chat ID format. Must be a number.'' @ nl @ nl
                   @ ''Get your chat ID from @userinfobot on Telegram.'')
      else accept)"

text \<open>\<^verbatim>\<open>/^\+[1-9]\d{1,14}$/\<close>\<close>

definition is_digit_1_9 :: "char \<Rightarrow> bool" where
  "is_digit_1_9 c = (CHR ''1'' \<le> c \<and> c \<le> CHR ''9'')"

definition phonePattern :: rx where
  "phonePattern =
     Seq (Lit CHR ''+'') (Seq (Sym is_digit_1_9) (Seq (Sym is_digit) (AtMost (Sym is_digit) 13)))"

definition validatePhoneNumber :: "string \<Rightarrow> validation" where
  "validatePhoneNumber phone =
     (if phone = [] then reject ''Phone number is required''
      else if \<not> rx_test phonePattern (trim phone)
      then reject ''Invalid phone number format. Must be in E.164 format (e.g., +15555551234)''
      else accept)"

definition validateAgentId :: "string \<Rightarrow> validation" where
  "validateAgentId agentId =
     (if agentId = [] then reject ''Agent ID is required''
      else
        (let trimmed = trim agentId in
         if length trimmed = 0 then reject ''Agent ID cannot be empty''
         else if length trimmed > 50 then reject ''Agent ID must be 50 characters or less''
         else accept))"

text \<open>\<^verbatim>\<open>/^\d+-[a-z0-9]+$/\<close>\<close>

definition jobIdPattern :: rx where
  "jobIdPattern =
     Seq (Plus (Sym is_digit)) (Seq (Lit CHR ''-'') (Plus (Sym (\<lambda>c. is_lower c \<or> is_digit c))))"

definition validateJobId :: "string \<Rightarrow> validation" where
  "validateJobId jobId =
     (if jobId = [] then reject ''Job ID is required''
      else
        (let trimmed = trim jobId in
         if length trimmed = 0 then reject ''Job ID cannot be empty''
         else if \<not> rx_test jobIdPattern trimmed
         then reject (''Invalid job ID format. Use '' @ dq @ ''clawtick list'' @ dq
                      @ '' to see valid job IDs.'')
         else accept))"

definition validTypes :: "string list" where
  "validTypes = [''openclaw'', ''webhook'']"

definition validateIntegrationType :: "string \<Rightarrow> validation" where
  "validateIntegrationType type =
     (if type = [] then reject ''Integration type is required''
      else
        (let trimmed = toLowerCase (trim type) in
         if trimmed \<notin> set validTypes
         then reject (''Invalid integration type: '' @ type @ nl @ nl @ ''Valid types:'' @ nl @ ''  ''
                      @ join '', '' validTypes)
         else accept))"

text \<open>
  Two functions of the runtime are parameters of the model: the constructor \<^verbatim>\<open>URL\<close>,
  by the \<^verbatim>\<open>protocol\<close> of the URL it builds (\<open>None\<close> when it throws), and \<^verbatim>\<open>JSON.parse\<close> on
  the text of an option (\<open>None\<close> when it throws).
\<close>

record runtime =
  URL_protocol :: "string \<Rightarrow> string option"
  JSON_parse_text :: "string \<Rightarrow> json option"

definition validateWebhookUrl :: "runtime \<Rightarrow> string \<Rightarrow> validation" where
  "validateWebhookUrl rt url =
     (if url = [] then reject ''Webhook URL is required for webhook integration''
      else
        (let trimmed = trim url in
         if length trimmed = 0 then reject ''Webhook URL cannot be empty''
         else
           (case URL_protocol rt trimmed of
              None \<Rightarrow> reject ''Invalid webhook URL format. Must be a valid HTTP/HTTPS URL.''
            | Some protocol \<Rightarrow>
                if protocol \<notin> set [''http:'', ''https:'']
                then reject ''Webhook URL must use HTTP or HTTPS protocol''
                else accept)))"

definition validMethods :: "string list" where
  "validMethods = [''GET'', ''POST'', ''PUT'', ''DELETE'']"

definition validateWebhookMethod :: "string \<Rightarrow> validation" where
  "validateWebhookMethod method =
     (if method = [] then reject ''Webhook method is required for webhook integration''
      else
        (let upperMethod = toUpperCase (trim method) in
         if upperMethod \<notin> set validMethods
         then reject (''Invalid HTTP method: '' @ method @ nl @ nl @ ''Valid methods:'' @ nl @ ''  ''
                      @ join '', '' validMethods)
         else accept))"

text \<open>
  In \<^verbatim>\<open>validateWebhookHeaders\<close> the \<^verbatim>\<open>catch\<close> also takes the \<^verbatim>\<open>TypeError\<close> that
  \<^verbatim>\<open>Object.entries(null)\<close> throws: \<^verbatim>\<open>typeof null\<close> is \<^verbatim>\<open>'object'\<close>.
\<close>

definition is_JStr :: "json \<Rightarrow> bool" where
  "is_JStr v = (case v of JStr s \<Rightarrow> True | _ \<Rightarrow> False)"

definition validateWebhookHeaders :: "runtime \<Rightarrow> string \<Rightarrow> validation" where
  "validateWebhookHeaders rt headers =
     (if headers = [] then reject ''Webhook headers must be a JSON string''
      else
        (let trimmed = trim headers in
         if length trimmed = 0 then reject ''Webhook headers cannot be empty''
         else
           (case JSON_parse_text rt trimmed of
              None \<Rightarrow>
                reject (''Invalid JSON format for webhook headers. Example: {'' @ dq @ ''Authorization''
                        @ dq @ '': '' @ dq @ ''Bearer token'' @ dq @ ''}'')
            | Some JNull \<Rightarrow>
                reject (''Invalid JSON format for webhook headers. Example: {'' @ dq @ ''Authorization''
                        @ dq @ '': '' @ dq @ ''Bearer token'' @ dq @ ''}'')
            | Some (JObj kvs) \<Rightarrow>
                (case List.find (\<lambda>(key, v). \<not> is_JStr v) (own_props (JObj kvs)) of
                   Some (key, v) \<Rightarrow>
                     reject (''Invalid header value for '' @ dq @ key @ dq @ '': must be a string'')
                 | None \<Rightarrow> accept)
            | Some other \<Rightarrow>
                reject (''Webhook headers must be a JSON object (e.g., {'' @ dq @ ''Authorization''
                        @ dq @ '': '' @ dq @ ''Bearer token'' @ dq @ ''})''))))"

definition validateWebhookBody :: "string \<Rightarrow> validation" where
  "validateWebhookBody body =
     (if body = [] then reject ''Webhook body must be a string''
      else
        (let trimmed = trim body in
         if length trimmed = 0 then reject ''Webhook body cannot be empty''
         else if length trimmed > 10000 then reject ''Webhook body must be 10000 characters or less''
         else accept))"

subsection \<open>Failure modes of the validators\<close>

text \<open>
  The failure modes, as the doc comments and the error messages of the validators name
  them. A result is rejected when it is not valid and carries a non-empty error.
\<close>

definition rejected :: "validation \<Rightarrow> bool" where
  "rejected r = (\<not> valid r \<and> (case error r of None \<Rightarrow> False | Some msg \<Rightarrow> msg \<noteq> []))"


text \<open>
  Cron expressions: the fields are the pieces between runs of white space. The
  documentation speaks of five fields (``5-field standard format'', ``expected 5 fields'').
\<close>

definition cron_fields :: "string \<Rightarrow> string list" where
  "cron_fields cron = split_ws (trim cron)"



















section \<open>The commands\<close>

text \<open>
  Source: \<^verbatim>\<open>src/src/cli.ts\<close>, lines 1 to 930 (the version of the command surface with the
  \<^verbatim>\<open>jobs\<close> group and \<^verbatim>\<open>--sync\<close>).

  A command is modelled by what it leaves behind: the messages it prints, the calls it
  makes on the API client, each with whether it threw, and the exit status of the
  process (0 when the action returns). The data sent with a call is left out. Some
  methods the commands call (\<^verbatim>\<open>getGateway\<close>, \<^verbatim>\<open>testGateway\<close>, \<^verbatim>\<open>listApiKeys\<close>,
  \<^verbatim>\<open>createApiKey\<close>, \<^verbatim>\<open>revokeApiKey\<close>) are not defined in the client module modelled above;
  what any call returns or throws is a parameter of the model.
\<close>

datatype api_call =
    ListJobs
  | CreateJob
  | DeleteJob string
  | UpdateJob string
  | TriggerJob string
  | GetStatus
  | UpdateGateway
  | GetGateway
  | TestGateway
  | ListApiKeys
  | CreateApiKey
  | RevokeApiKey string

record run =
  printed :: "string list"
  trace :: "(api_call \<times> bool) list"
  exit_status :: nat

text \<open>
  What a command finds when it runs: the runtime functions, the \<^verbatim>\<open>apiKey\<close> of the config
  that \<^verbatim>\<open>loadConfig()\<close> returns, the answer to its \<open>i\<close>-th call on the client (\<open>Inl\<close> what
  the call throws), and, for \<^verbatim>\<open>jobs trigger --sync\<close>, the polls.
\<close>

record session =
  session_rt :: runtime
  config_key :: "json option"
  answers :: "nat \<Rightarrow> exn + api_object"
  polls :: "nat \<Rightarrow> poll"

definition message_of :: "exn \<Rightarrow> string" where
  "message_of e =
     (case e of
        Error msg \<Rightarrow> msg
      | TypeError msg \<Rightarrow> msg
      | SyntaxError \<Rightarrow> ''Unexpected token''
      | SystemError msg \<Rightarrow> msg)"

definition finish :: "string list \<Rightarrow> run" where
  "finish lines = \<lparr>printed = lines, trace = [], exit_status = 0\<rparr>"

definition exit_1 :: "string \<Rightarrow> run" where
  "exit_1 msg = \<lparr>printed = [msg], trace = [], exit_status = 1\<rparr>"

text \<open>
  \<^verbatim>\<open>try { const data = await api.call(); ... } catch (err) { spinner.fail(prefix + err.message);
  process.exit(1); }\<close>
\<close>

definition attempt :: "string \<Rightarrow> api_call \<Rightarrow> exn + api_object \<Rightarrow> (api_object \<Rightarrow> run) \<Rightarrow> run" where
  "attempt prefix call answer rest =
     (case answer of
        Inl e \<Rightarrow> \<lparr>printed = [prefix @ message_of e], trace = [(call, True)], exit_status = 1\<rparr>
      | Inr data \<Rightarrow> (let r = rest data in r\<lparr>trace := (call, False) # trace r\<rparr>))"

definition member :: "api_object \<Rightarrow> string \<Rightarrow> json option" where
  "member data name = map_of (rev (members data)) name"

text \<open>\<^verbatim>\<open>data.jobs?.find((j) => j.id === jobId)\<close> finds a job.\<close>

definition has_job :: "api_object \<Rightarrow> string \<Rightarrow> bool" where
  "has_job data jobId =
     (case member data ''jobs'' of
        Some (JArr js) \<Rightarrow> list_ex (\<lambda>j. get_prop j ''id'' = Inr (Some (JStr jobId))) js
      | _ \<Rightarrow> False)"

subsection \<open>Account, gateway, key and system commands\<close>

definition whoami :: "session \<Rightarrow> run" where
  "whoami s =
     (if \<not> truthy (config_key s) then finish [''Not authenticated. Run: clawtick login'']
      else attempt ''API error: '' GetStatus (answers s 0) (\<lambda>info. finish [''Connected'']))"

definition plan :: "session \<Rightarrow> run" where
  "plan s = attempt [] GetStatus (answers s 0) (\<lambda>info. finish [''Current Plan''])"

definition usage :: "session \<Rightarrow> run" where
  "usage s = attempt [] GetStatus (answers s 0) (\<lambda>info. finish [''Usage Report''])"

definition status_command :: "session \<Rightarrow> run" where
  "status_command s = attempt [] GetStatus (answers s 0) (\<lambda>info. finish [''Status loaded''])"

definition gateway_set :: "session \<Rightarrow> run" where
  "gateway_set s = attempt [] UpdateGateway (answers s 0) (\<lambda>data. finish [''Gateway configured''])"

definition gateway_status :: "session \<Rightarrow> run" where
  "gateway_status s =
     attempt [] GetGateway (answers s 0)
       (\<lambda>config. if \<not> truthy (member config ''url'') then finish [''No gateway configured'']
                 else finish [''Gateway Configuration''])"

definition gateway_test :: "session \<Rightarrow> run" where
  "gateway_test s =
     attempt [] TestGateway (answers s 0)
       (\<lambda>outcome. if truthy (member outcome ''success'') then finish [''Gateway connection successful'']
                 else exit_1 ''Gateway connection failed'')"

definition apikey_list :: "session \<Rightarrow> run" where
  "apikey_list s = attempt [] ListApiKeys (answers s 0) (\<lambda>data. finish [''API keys''])"

definition apikey_create :: "session \<Rightarrow> run" where
  "apikey_create s = attempt [] CreateApiKey (answers s 0) (\<lambda>data. finish [''API key created''])"

definition apikey_revoke :: "session \<Rightarrow> string \<Rightarrow> run" where
  "apikey_revoke s keyId =
     attempt [] (RevokeApiKey keyId) (answers s 0) (\<lambda>data. finish [''API key revoked''])"

text \<open>
  \<^verbatim>\<open>doctor\<close>: only the first status call ends the command when it throws. The gateway
  block and the quota block catch what their calls throw, print a warning and go on.
\<close>

definition doctor :: "session \<Rightarrow> run" where
  "doctor s =
     (if \<not> truthy (config_key s) then exit_1 ''Not authenticated''
      else
        (case answers s 0 of
           Inl e \<Rightarrow>
             \<lparr>printed = [''API connection failed: '' @ message_of e],
              trace = [(GetStatus, True)], exit_status = 1\<rparr>
         | Inr info \<Rightarrow>
             (let gateway_calls =
                    (case answers s 1 of
                       Inl e \<Rightarrow> [(GetGateway, True)]
                     | Inr gatewayConfig \<Rightarrow>
                         if truthy (member gatewayConfig ''url'')
                         then (case answers s 2 of
                                 Inl e \<Rightarrow> [(GetGateway, False), (TestGateway, True)]
                               | Inr testResult \<Rightarrow> [(GetGateway, False), (TestGateway, False)])
                         else [(GetGateway, False)]);
                  quota_call =
                    (case answers s (Suc (length gateway_calls)) of
                       Inl e \<Rightarrow> [(GetStatus, True)]
                     | Inr info2 \<Rightarrow> [(GetStatus, False)])
              in \<lparr>printed = [''All checks completed!''],
                  trace = (GetStatus, False) # gateway_calls @ quota_call,
                  exit_status = 0\<rparr>)))"

subsection \<open>Job commands\<close>

definition jobs_list :: "session \<Rightarrow> run" where
  "jobs_list s = attempt [] ListJobs (answers s 0) (\<lambda>data. finish [''jobs''])"

definition jobs_inspect :: "session \<Rightarrow> string \<Rightarrow> run" where
  "jobs_inspect s jobId =
     attempt [] ListJobs (answers s 0)
       (\<lambda>data. if \<not> has_job data jobId then exit_1 (''Job not found: '' @ jobId)
               else finish [''Job''])"

definition jobs_remove :: "session \<Rightarrow> string \<Rightarrow> run" where
  "jobs_remove s jobId = attempt [] (DeleteJob jobId) (answers s 0) (\<lambda>data. finish [''Job deleted''])"

definition jobs_enable :: "session \<Rightarrow> string \<Rightarrow> run" where
  "jobs_enable s jobId = attempt [] (UpdateJob jobId) (answers s 0) (\<lambda>data. finish [''Job enabled''])"

definition jobs_disable :: "session \<Rightarrow> string \<Rightarrow> run" where
  "jobs_disable s jobId = attempt [] (UpdateJob jobId) (answers s 0) (\<lambda>data. finish [''Job disabled''])"

text \<open>
  \<^verbatim>\<open>jobs trigger\<close>: with \<^verbatim>\<open>--sync\<close> the poll loop of the first section follows the trigger
  call; every iteration of the loop is one \<^verbatim>\<open>listJobs\<close> call.
\<close>

definition report_text :: "report \<Rightarrow> string" where
  "report_text r =
     (case r of
        CompletedSuccessfully t \<Rightarrow> ''Job completed successfully''
      | ExecutionFailed t \<Rightarrow> ''Job execution failed''
      | StatusUnknownTimeout \<Rightarrow> ''Job triggered, but execution status unknown (timeout)''
      | SpinnerFail msg \<Rightarrow> msg)"

definition jobs_trigger :: "session \<Rightarrow> string \<Rightarrow> bool \<Rightarrow> run" where
  "jobs_trigger s jobId sync =
     (if sync
      then (case answers s 0 of
              Inl e \<Rightarrow> \<lparr>printed = [message_of e], trace = [(TriggerJob jobId, True)], exit_status = 1\<rparr>
            | Inr data \<Rightarrow>
                \<lparr>printed = [report_text (reported (trigger_sync jobId (Inr ()) (polls s)))],
                 trace = (TriggerJob jobId, False) #
                         map (\<lambda>i. (ListJobs, \<not> poll_ok (polls s i)))
                             [0..<attempts (poll_while jobId (polls s) initial_state)],
                 exit_status = exit_code (trigger_sync jobId (Inr ()) (polls s))\<rparr>)
      else attempt [] (TriggerJob jobId) (answers s 0) (\<lambda>data. finish [''Job triggered'']))"

text \<open>
  The options of \<^verbatim>\<open>jobs create\<close> and \<^verbatim>\<open>jobs update\<close>, as the option parser hands them
  over: \<open>None\<close> for an option that was not given.
\<close>

record create_options =
  c_cron :: string
  c_message :: string
  c_name :: "string option"
  c_integration :: "string option"
  c_agent :: "string option"
  c_channel :: "string option"
  c_deliver :: bool
  c_replyTo :: "string option"
  c_webhookUrl :: "string option"
  c_webhookMethod :: "string option"
  c_webhookHeaders :: "string option"
  c_webhookBody :: "string option"
  c_timezone :: "string option"

record update_options =
  u_name :: "string option"
  u_cron :: "string option"
  u_message :: "string option"
  u_integration :: "string option"
  u_agent :: "string option"
  u_channel :: "string option"
  u_deliver :: "bool option"
  u_replyTo :: "string option"
  u_webhookUrl :: "string option"
  u_webhookMethod :: "string option"
  u_webhookHeaders :: "string option"
  u_webhookBody :: "string option"
  u_timezone :: "string option"
  u_enable :: bool
  u_disable :: bool

text \<open>An option that is given and not the empty string: \<^verbatim>\<open>if (options.x)\<close>.\<close>

definition given :: "string option \<Rightarrow> bool" where
  "given opt = (case opt of None \<Rightarrow> False | Some v \<Rightarrow> v \<noteq> [])"

definition text_of :: "string option \<Rightarrow> string" where
  "text_of opt = (case opt of None \<Rightarrow> [] | Some v \<Rightarrow> v)"

definition error_text :: "validation \<Rightarrow> string" where
  "error_text v = (case error v of None \<Rightarrow> ''undefined'' | Some msg \<Rightarrow> msg)"

text \<open>
  \<^verbatim>\<open>const check = validate(x); if (!check.valid) { console.error(check.error);
  process.exit(1); }\<close>, followed by the rest of the action.
\<close>

definition checked :: "validation \<Rightarrow> run \<Rightarrow> run" where
  "checked v rest = (if \<not> valid v then exit_1 (error_text v) else rest)"

definition checked_if :: "bool \<Rightarrow> validation \<Rightarrow> run \<Rightarrow> run" where
  "checked_if applies v rest = (if applies then checked v rest else rest)"

text \<open>
  \<^verbatim>\<open>login\<close> and \<^verbatim>\<open>logout\<close> call no API method; they act on the config file. \<^verbatim>\<open>login\<close> takes
  the key from \<^verbatim>\<open>--key\<close> or else from \<^verbatim>\<open>CLAWPULSE_API_KEY\<close>, and returns without saving
  when it has none.
\<close>

definition login :: "process \<Rightarrow> string option \<Rightarrow> string option \<Rightarrow> exn + process" where
  "login p key api_url =
     (let apiKey = (if given key then key else environ p ''CLAWPULSE_API_KEY'') in
      if \<not> given apiKey then Inr p
      else
        (case saveConfig (files p)
                ([(''apiKey'', JStr (text_of apiKey))]
                 @ (if given api_url then [(''apiUrl'', JStr (text_of api_url))] else [])) of
           Inl e \<Rightarrow> Inl e
         | Inr fs1 \<Rightarrow> Inr (p\<lparr>files := fs1\<rparr>)))"


definition jobs_create :: "session \<Rightarrow> create_options \<Rightarrow> run" where
  "jobs_create s options =
     (let integrationType =
            (if given (c_integration options) then toLowerCase (text_of (c_integration options))
             else ''openclaw'')
      in
      checked_if (given (c_integration options)) (validateIntegrationType (text_of (c_integration options)))
     (checked (validateCronExpression (c_cron options))
     (checked (validateMessage (c_message options))
     (checked_if (given (c_name options)) (validateJobName (text_of (c_name options)))
     (if integrationType = ''webhook''
      then
        (if \<not> given (c_webhookUrl options)
         then exit_1 ''--webhook-url is required for webhook integration''
         else if \<not> given (c_webhookMethod options)
         then exit_1 ''--webhook-method is required for webhook integration''
         else
           checked (validateWebhookUrl (session_rt s) (text_of (c_webhookUrl options)))
          (checked (validateWebhookMethod (text_of (c_webhookMethod options)))
          (checked_if (given (c_webhookHeaders options))
             (validateWebhookHeaders (session_rt s) (text_of (c_webhookHeaders options)))
          (checked_if (given (c_webhookBody options))
             (validateWebhookBody (text_of (c_webhookBody options)))
          (if given (c_webhookHeaders options) \<and>
              JSON_parse_text (session_rt s) (text_of (c_webhookHeaders options)) = None
           then exit_1 (message_of SyntaxError)
           else attempt [] CreateJob (answers s 0) (\<lambda>data. finish [''Job created'']))))))
      else
        checked_if (given (c_agent options)) (validateAgentId (text_of (c_agent options)))
          (attempt [] CreateJob (answers s 0) (\<lambda>data. finish [''Job created''])))))))"

text \<open>
  \<^verbatim>\<open>jobs update\<close>: the keys of \<^verbatim>\<open>updates\<close> decide whether anything is sent. The
  \<^verbatim>\<open>JSON.parse\<close> of the headers stands outside any \<^verbatim>\<open>try\<close>: what it throws ends the
  process with status 1.
\<close>

definition no_updates :: "update_options \<Rightarrow> bool" where
  "no_updates options =
     (\<not> given (u_name options) \<and> \<not> given (u_cron options) \<and> \<not> given (u_message options) \<and>
      \<not> given (u_timezone options) \<and> \<not> u_enable options \<and> \<not> u_disable options \<and>
      \<not> given (u_integration options) \<and> u_agent options = None \<and> u_channel options = None \<and>
      u_deliver options = None \<and> u_replyTo options = None \<and> \<not> given (u_webhookUrl options) \<and>
      \<not> given (u_webhookMethod options) \<and> \<not> given (u_webhookHeaders options) \<and>
      u_webhookBody options = None)"

definition jobs_update :: "session \<Rightarrow> string \<Rightarrow> update_options \<Rightarrow> run" where
  "jobs_update s jobId options =
     checked_if (given (u_cron options)) (validateCronExpression (text_of (u_cron options)))
    (checked_if (given (u_message options)) (validateMessage (text_of (u_message options)))
    (checked_if (given (u_integration options)) (validateIntegrationType (text_of (u_integration options)))
    (checked_if (given (u_webhookUrl options)) (validateWebhookUrl (session_rt s) (text_of (u_webhookUrl options)))
    (checked_if (given (u_webhookMethod options)) (validateWebhookMethod (text_of (u_webhookMethod options)))
    (checked_if (given (u_webhookHeaders options))
       (validateWebhookHeaders (session_rt s) (text_of (u_webhookHeaders options)))
    (if given (u_webhookHeaders options) \<and>
        JSON_parse_text (session_rt s) (text_of (u_webhookHeaders options)) = None
     then exit_1 (message_of SyntaxError)
     else if no_updates options then finish [''No updates provided. Use --help for options.'']
     else attempt [] (UpdateJob jobId) (answers s 0) (\<lambda>data. finish [''Job updated''])))))))"

subsection \<open>The command surface\<close>

datatype command =
    Whoami
  | Plan
  | Usage
  | Status
  | Doctor
  | GatewaySet
  | GatewayStatus
  | GatewayTest
  | ApikeyList
  | ApikeyCreate
  | ApikeyRevoke string
  | JobsList
  | JobsCreate create_options
  | JobsInspect string
  | JobsRemove string
  | JobsUpdate string update_options
  | JobsTrigger string bool
  | JobsEnable string
  | JobsDisable string

fun run_command :: "session \<Rightarrow> command \<Rightarrow> run" where
  "run_command s Whoami = whoami s"
| "run_command s Plan = plan s"
| "run_command s Usage = usage s"
| "run_command s Status = status_command s"
| "run_command s Doctor = doctor s"
| "run_command s GatewaySet = gateway_set s"
| "run_command s GatewayStatus = gateway_status s"
| "run_command s GatewayTest = gateway_test s"
| "run_command s ApikeyList = apikey_list s"
| "run_command s ApikeyCreate = apikey_create s"
| "run_command s (ApikeyRevoke keyId) = apikey_revoke s keyId"
| "run_command s JobsList = jobs_list s"
| "run_command s (JobsCreate options) = jobs_create s options"
| "run_command s (JobsInspect jobId) = jobs_inspect s jobId"
| "run_command s (JobsRemove jobId) = jobs_remove s jobId"
| "run_command s (JobsUpdate jobId options) = jobs_update s jobId options"
| "run_command s (JobsTrigger jobId sync) = jobs_trigger s jobId sync"
| "run_command s (JobsEnable jobId) = jobs_enable s jobId"
| "run_command s (JobsDisable jobId) = jobs_disable s jobId"

text \<open>
  The validators a command applies to its input, in the order of the code. In
  \<^verbatim>\<open>jobs create\<close> the webhook options are validated once both the URL and the method
  are given.
\<close>

definition create_validations :: "runtime \<Rightarrow> create_options \<Rightarrow> validation list" where
  "create_validations r options =
     (if given (c_integration options) then [validateIntegrationType (text_of (c_integration options))] else [])
     @ [validateCronExpression (c_cron options), validateMessage (c_message options)]
     @ (if given (c_name options) then [validateJobName (text_of (c_name options))] else [])
     @ (if given (c_integration options) \<and> toLowerCase (text_of (c_integration options)) = ''webhook''
        then (if given (c_webhookUrl options) \<and> given (c_webhookMethod options)
              then [validateWebhookUrl r (text_of (c_webhookUrl options)),
                    validateWebhookMethod (text_of (c_webhookMethod options))]
                   @ (if given (c_webhookHeaders options)
                      then [validateWebhookHeaders r (text_of (c_webhookHeaders options))] else [])
                   @ (if given (c_webhookBody options)
                      then [validateWebhookBody (text_of (c_webhookBody options))] else [])
              else [])
        else (if given (c_agent options) then [validateAgentId (text_of (c_agent options))] else []))"

definition update_validations :: "runtime \<Rightarrow> update_options \<Rightarrow> validation list" where
  "update_validations r options =
     (if given (u_cron options) then [validateCronExpression (text_of (u_cron options))] else [])
     @ (if given (u_message options) then [validateMessage (text_of (u_message options))] else [])
     @ (if given (u_integration options) then [validateIntegrationType (text_of (u_integration options))] else [])
     @ (if given (u_webhookUrl options) then [validateWebhookUrl r (text_of (u_webhookUrl options))] else [])
     @ (if given (u_webhookMethod options) then [validateWebhookMethod (text_of (u_webhookMethod options))] else [])
     @ (if given (u_webhookHeaders options)
        then [validateWebhookHeaders r (text_of (u_webhookHeaders options))] else [])"

definition first_error :: "validation list \<Rightarrow> string option" where
  "first_error vs = map_option error_text (List.find (\<lambda>v. \<not> valid v) vs)"

text \<open>
  An API call that throws is terminal for a run when it is the last call of the run and
  the exit status is not zero.
\<close>

definition terminal_on_failure :: "run \<Rightarrow> bool" where
  "terminal_on_failure r =
     list_all (\<lambda>i. snd (trace r ! i) \<longrightarrow> Suc i = length (trace r) \<and> exit_status r \<noteq> 0)
       [0..<length (trace r)]"

section \<open>Auxiliary notions\<close>


text \<open>A run guarded by a list of checks: the first check that fails ends it.\<close>

definition guarded :: "validation list \<Rightarrow> run \<Rightarrow> run" where
  "guarded vs rest = foldr checked vs rest"

text \<open>A word: a non-empty string without white space.\<close>

definition word :: "string \<Rightarrow> bool" where
  "word w = (w \<noteq> [] \<and> list_all (\<lambda>c. \<not> is_space c) w)"

section \<open>Example inputs\<close>

text \<open>Concrete inputs on which the claims below are exercised.\<close>

subsection \<open>Polls\<close>

text \<open>
  Three sequences of polls for the job \<^verbatim>\<open>1700000000000-abc\<close>: every request fails; the
  job never has a \<^verbatim>\<open>lastRunAt\<close>; the job has run, with two failures counted, when the
  second poll is made.
\<close>

definition failing_polls :: "nat \<Rightarrow> poll" where
  "failing_polls i = \<lparr>response = Inl ''fetch failed'', now = 1700000000000\<rparr>"

definition idle_polls :: "nat \<Rightarrow> poll" where
  "idle_polls i =
     \<lparr>response = Inr (Some [\<lparr>job_id = ''1700000000000-abc'', lastRunAt = None, failCount = 0\<rparr>]),
      now = 1700000000000 + 2000 * int i\<rparr>"

definition finishing_polls :: "nat \<Rightarrow> poll" where
  "finishing_polls i =
     \<lparr>response = Inr (Some [\<lparr>job_id = ''1700000000000-abc'',
                              lastRunAt = (if i = 0 then None else Some (Time 1700000003000)),
                              failCount = 2\<rparr>]),
      now = 1700000000000 + 2000 * int (Suc i)\<rparr>"

subsection \<open>File systems and clients\<close>

text \<open>
  A home directory holding the config of a self-hosted login; a home directory without
  \<^verbatim>\<open>~/.clawtick\<close>, where it can be created; one where it cannot be created. A client with a
  key. A process whose config file has an empty \<^verbatim>\<open>apiKey\<close> while \<^verbatim>\<open>CLAWPULSE_API_KEY\<close> is
  set.
\<close>

definition stored_login :: filesystem where
  "stored_login =
     \<lparr>dir_exists = True, dir_creatable = True, file_writable = True,
      config_file = Holds (Wellformed (JObj [(''apiUrl'', JStr ''https://self.hosted.example''),
                                            (''apiKey'', JStr ''cp_live_0123456789'')]))\<rparr>"

definition fresh_home :: filesystem where
  "fresh_home = \<lparr>dir_exists = False, dir_creatable = True, file_writable = True, config_file = Missing\<rparr>"

definition readonly_home :: filesystem where
  "readonly_home = \<lparr>dir_exists = False, dir_creatable = False, file_writable = False, config_file = Missing\<rparr>"


definition logged_out_with_env_key :: process where
  "logged_out_with_env_key =
     \<lparr>files = \<lparr>dir_exists = True, dir_creatable = True, file_writable = True,
               config_file = Holds (Wellformed (JObj [(''apiUrl'', JStr ''https://api.clawtick.com''),
                                                     (''apiKey'', JStr [])]))\<rparr>,
      environ = [''CLAWPULSE_API_KEY'' \<mapsto> ''cp_live_0123456789'']\<rparr>"

subsection \<open>Runtime, options and sessions\<close>

text \<open>
  A runtime for the examples: it knows two URLs and two JSON texts.
\<close>

definition node_runtime :: runtime where
  "node_runtime =
     \<lparr>URL_protocol = (\<lambda>s. if s = ''https://example.com/hook'' then Some ''https:''
                           else if s = ''ftp://example.com/hook'' then Some ''ftp:'' else None),
      JSON_parse_text = (\<lambda>s. if s = ''{}'' then Some (JObj [])
                              else if s = ''[]'' then Some (JArr []) else None)\<rparr>"

text \<open>
  Example input: a webhook job with the method \<^verbatim>\<open>PATCH\<close>, an update whose cron expression
  has two fields, and a session in which every API call succeeds.
\<close>

definition webhook_job :: create_options where
  "webhook_job =
     \<lparr>c_cron = ''0 9 * * *'', c_message = ''Daily report'', c_name = Some ''daily report'',
      c_integration = Some ''webhook'', c_agent = None, c_channel = None, c_deliver = False,
      c_replyTo = None, c_webhookUrl = Some ''https://example.com/hook'',
      c_webhookMethod = Some ''PATCH'', c_webhookHeaders = None, c_webhookBody = None,
      c_timezone = None\<rparr>"

definition cron_update :: update_options where
  "cron_update =
     \<lparr>u_name = None, u_cron = Some ''every day'', u_message = None, u_integration = None,
      u_agent = None, u_channel = None, u_deliver = None, u_replyTo = None, u_webhookUrl = None,
      u_webhookMethod = None, u_webhookHeaders = None, u_webhookBody = None, u_timezone = None,
      u_enable = False, u_disable = False\<rparr>"

definition online :: session where
  "online =
     \<lparr>session_rt = node_runtime, config_key = Some (JStr ''cp_live_0123456789''),
      answers = (\<lambda>i. Inr \<lparr>data_error = None, members = []\<rparr>),
      polls = idle_polls\<rparr>"



section \<open>The poll loop: facts and claims\<close>

subsection \<open>Facts about the loop\<close>

lemma poll_body_thrown:
  "response p = Inl e \<Longrightarrow>
   poll_body jobId p st = st\<lparr>slept := slept st + 2000, attempts := Suc (attempts st), thrown := Some e\<rparr>"
  by (simp add: poll_body_def Let_def)

lemma poll_body_idle:
  "poll_ok p \<Longrightarrow> \<not> finds_run jobId p \<Longrightarrow>
   poll_body jobId p st = st\<lparr>slept := slept st + 2000, attempts := Suc (attempts st)\<rparr>"
  by (auto simp: poll_body_def poll_ok_def finds_run_def fetched_def is_triggered_run_def Let_def
           split: sum.splits option.splits timestamp.splits)

lemma poll_body_found:
  "fetched jobId p = Some j \<Longrightarrow> is_triggered_run j (now p) \<Longrightarrow>
   \<exists>t. lastRunAt j = Some t \<and>
     poll_body jobId p st =
       st\<lparr>slept := slept st + 2000, attempts := Suc (attempts st), completed := True,
          result := Some \<lparr>status = (if failCount j \<noteq> 0 then Failed else Success), run_lastRunAt = t\<rparr>\<rparr>"
  by (auto simp: poll_body_def fetched_def is_triggered_run_def Let_def
           split: sum.splits option.splits timestamp.splits)

lemma completed_poll_body:
  "completed (poll_body jobId p st) \<longleftrightarrow> completed st \<or> finds_run jobId p"
  by (auto simp: poll_body_def finds_run_def fetched_def is_triggered_run_def Let_def
           split: sum.splits option.splits timestamp.splits)

lemma slept_poll_body: "slept (poll_body jobId p st) = slept st + 2000"
  by (simp add: poll_body_def Let_def split: sum.split option.split timestamp.split)

lemma thrown_poll_body:
  "thrown st = None \<Longrightarrow> thrown (poll_body jobId p st) = (case response p of Inl e \<Rightarrow> Some e | Inr x \<Rightarrow> None)"
  by (simp add: poll_body_def Let_def split: sum.split option.split timestamp.split)

lemma poll_while_stop:
  "\<not> (attempts st < maxAttempts \<and> \<not> completed st \<and> thrown st = None) \<Longrightarrow> poll_while jobId env st = st"
  by (subst poll_while.simps) auto

lemma poll_while_step:
  "attempts st < maxAttempts \<Longrightarrow> \<not> completed st \<Longrightarrow> thrown st = None \<Longrightarrow>
   poll_while jobId env st = poll_while jobId env (poll_body jobId (env (attempts st)) st)"
  by (subst poll_while.simps) simp

lemma poll_while_skip:
  "attempts st \<le> k \<Longrightarrow> k \<le> maxAttempts \<Longrightarrow> \<not> completed st \<Longrightarrow> thrown st = None \<Longrightarrow>
   (\<forall>i. attempts st \<le> i \<and> i < k \<longrightarrow> poll_ok (env i) \<and> \<not> finds_run jobId (env i)) \<Longrightarrow>
   poll_while jobId env st =
     poll_while jobId env (st\<lparr>slept := slept st + 2000 * (k - attempts st), attempts := k\<rparr>)"
proof (induction "k - attempts st" arbitrary: st)
  case 0
  then show ?case by simp
next
  case (Suc n)
  let ?st' = "st\<lparr>slept := slept st + 2000, attempts := Suc (attempts st)\<rparr>"
  from Suc.hyps(2) Suc.prems have lt: "attempts st < k" by simp
  with Suc.prems have body: "poll_body jobId (env (attempts st)) st = ?st'"
    by (intro poll_body_idle) auto
  have "poll_while jobId env st = poll_while jobId env ?st'"
    using poll_while_step[of st jobId env] lt Suc.prems body by simp
  also have "\<dots> = poll_while jobId env (?st'\<lparr>slept := slept ?st' + 2000 * (k - attempts ?st'), attempts := k\<rparr>)"
    using Suc.hyps(2) Suc.prems lt by (intro Suc.hyps(1)) auto
  also have "?st'\<lparr>slept := slept ?st' + 2000 * (k - attempts ?st'), attempts := k\<rparr>
      = st\<lparr>slept := slept st + 2000 * (k - attempts st), attempts := k\<rparr>"
    using lt by simp
  finally show ?case .
qed

lemma poll_while_first_found:
  assumes "k < maxAttempts"
    and "\<forall>i<k. poll_ok (env i) \<and> \<not> finds_run jobId (env i)"
    and "fetched jobId (env k) = Some j" and "is_triggered_run j (now (env k))"
  shows "\<exists>t. lastRunAt j = Some t \<and>
    poll_while jobId env initial_state =
      \<lparr>attempts = Suc k, completed = True,
       result = Some \<lparr>status = (if failCount j \<noteq> 0 then Failed else Success), run_lastRunAt = t\<rparr>,
       slept = 2000 * Suc k, thrown = None\<rparr>"
proof -
  let ?st = "initial_state\<lparr>slept := slept initial_state + 2000 * (k - attempts initial_state), attempts := k\<rparr>"
  have skip: "poll_while jobId env initial_state = poll_while jobId env ?st"
    using assms(1,2) by (intro poll_while_skip) (auto simp: initial_state_def)
  obtain t where t: "lastRunAt j = Some t"
    and body: "poll_body jobId (env k) ?st =
       ?st\<lparr>slept := slept ?st + 2000, attempts := Suc (attempts ?st), completed := True,
          result := Some \<lparr>status = (if failCount j \<noteq> 0 then Failed else Success), run_lastRunAt = t\<rparr>\<rparr>"
    using poll_body_found[OF assms(3,4), of ?st] by blast
  have "poll_while jobId env ?st = poll_while jobId env (poll_body jobId (env k) ?st)"
    using assms(1) poll_while_step[of ?st jobId env] by (simp add: initial_state_def)
  also have "\<dots> = poll_body jobId (env k) ?st"
    by (rule poll_while_stop) (simp add: body)
  finally show ?thesis using skip t body by (simp add: initial_state_def)
qed

lemma poll_while_first_thrown:
  assumes "k < maxAttempts"
    and "\<forall>i<k. poll_ok (env i) \<and> \<not> finds_run jobId (env i)"
    and "response (env k) = Inl e"
  shows "poll_while jobId env initial_state =
      \<lparr>attempts = Suc k, completed = False, result = None, slept = 2000 * Suc k, thrown = Some e\<rparr>"
proof -
  let ?st = "initial_state\<lparr>slept := slept initial_state + 2000 * (k - attempts initial_state), attempts := k\<rparr>"
  have skip: "poll_while jobId env initial_state = poll_while jobId env ?st"
    using assms(1,2) by (intro poll_while_skip) (auto simp: initial_state_def)
  have body: "poll_body jobId (env k) ?st =
       ?st\<lparr>slept := slept ?st + 2000, attempts := Suc (attempts ?st), thrown := Some e\<rparr>"
    by (rule poll_body_thrown[OF assms(3)])
  have "poll_while jobId env ?st = poll_while jobId env (poll_body jobId (env k) ?st)"
    using assms(1) poll_while_step[of ?st jobId env] by (simp add: initial_state_def)
  also have "\<dots> = poll_body jobId (env k) ?st"
    by (rule poll_while_stop) (simp add: body)
  finally show ?thesis using skip body by (simp add: initial_state_def)
qed

lemma poll_while_none_found:
  assumes "\<forall>i<maxAttempts. poll_ok (env i) \<and> \<not> finds_run jobId (env i)"
  shows "poll_while jobId env initial_state =
      \<lparr>attempts = maxAttempts, completed = False, result = None, slept = 2000 * maxAttempts, thrown = None\<rparr>"
proof -
  let ?st = "initial_state\<lparr>slept := slept initial_state + 2000 * (maxAttempts - attempts initial_state),
     attempts := maxAttempts\<rparr>"
  have skip: "poll_while jobId env initial_state = poll_while jobId env ?st"
    using assms by (intro poll_while_skip) (auto simp: initial_state_def)
  have "poll_while jobId env ?st = ?st"
    by (rule poll_while_stop) simp
  with skip show ?thesis by (simp add: initial_state_def)
qed

lemma poll_while_invariant:
  "attempts st \<le> maxAttempts \<Longrightarrow>
   attempts (poll_while jobId env st) \<le> maxAttempts \<and>
   attempts st \<le> attempts (poll_while jobId env st) \<and>
   slept (poll_while jobId env st) = slept st + 2000 * (attempts (poll_while jobId env st) - attempts st) \<and>
   (\<forall>i. attempts st \<le> i \<and> Suc i < attempts (poll_while jobId env st) \<longrightarrow>
        poll_ok (env i) \<and> \<not> finds_run jobId (env i))"
proof (induction jobId env st rule: poll_while.induct)
  case (1 jobId env st)
  show ?case
  proof (cases "attempts st < maxAttempts \<and> \<not> completed st \<and> thrown st = None")
    case False
    then have "poll_while jobId env st = st" by (rule poll_while_stop)
    then show ?thesis using "1.prems" by auto
  next
    case True
    let ?st' = "poll_body jobId (env (attempts st)) st"
    have eq: "poll_while jobId env st = poll_while jobId env ?st'"
      using True by (intro poll_while_step) auto
    have a': "attempts ?st' = Suc (attempts st)" by (rule attempts_poll_body)
    have IH: "attempts (poll_while jobId env ?st') \<le> maxAttempts \<and>
      attempts ?st' \<le> attempts (poll_while jobId env ?st') \<and>
      slept (poll_while jobId env ?st') = slept ?st' + 2000 * (attempts (poll_while jobId env ?st') - attempts ?st') \<and>
      (\<forall>i. attempts ?st' \<le> i \<and> Suc i < attempts (poll_while jobId env ?st') \<longrightarrow>
        poll_ok (env i) \<and> \<not> finds_run jobId (env i))"
      using True a' by (intro "1.IH") auto
    have first: "Suc (attempts st) < attempts (poll_while jobId env ?st') \<Longrightarrow>
        poll_ok (env (attempts st)) \<and> \<not> finds_run jobId (env (attempts st))"
    proof -
      assume more: "Suc (attempts st) < attempts (poll_while jobId env ?st')"
      have cont: "attempts ?st' < maxAttempts \<and> \<not> completed ?st' \<and> thrown ?st' = None"
      proof (rule ccontr)
        assume "\<not> ?thesis"
        then have "poll_while jobId env ?st' = ?st'" by (rule poll_while_stop)
        with more a' show False by simp
      qed
      then show ?thesis
        using True by (auto simp: completed_poll_body thrown_poll_body poll_ok_def split: sum.splits)
    qed
    have later: "poll_ok (env i) \<and> \<not> finds_run jobId (env i)"
      if "attempts st \<le> i" and "Suc i < attempts (poll_while jobId env ?st')" for i
    proof (cases "i = attempts st")
      case True
      with that first show ?thesis by simp
    next
      case False
      with that a' have "attempts ?st' \<le> i" by simp
      with IH that show ?thesis by blast
    qed
    have sl: "slept (poll_while jobId env ?st') =
        slept st + 2000 * (attempts (poll_while jobId env ?st') - attempts st)"
    proof -
      define n where "n = attempts (poll_while jobId env ?st')"
      have "Suc (attempts st) \<le> n" using IH a' by (simp add: n_def)
      then have "2000 + 2000 * (n - Suc (attempts st)) = 2000 * (n - attempts st)" by arith
      with IH a' show ?thesis by (simp add: slept_poll_body n_def)
    qed
    show ?thesis
      unfolding eq using IH a' later sl by auto
  qed
qed

subsection \<open>Claims about the poll loop\<close>

text \<open>
  C1, as stated: in every iteration a fetched job's run counts as the triggered run
  exactly when the job has a \<^verbatim>\<open>lastRunAt\<close> and the poll time minus it is below 30000 ms;
  the loop then stops and reports failed for a nonzero \<^verbatim>\<open>failCount\<close>, success otherwise;
  and if no iteration finds such a run the command reports a timeout.

  The last part does not hold when a poll request throws: the first iteration below finds
  no run, the loop is left after that single iteration, and the command reports the
  error and exits with status 1 instead of reporting a timeout.
\<close>

theorem sync_trigger_timeout_counterexample:
  "\<not> finds_run ''1700000000000-abc'' (failing_polls 0) \<and>
   attempts (poll_while ''1700000000000-abc'' failing_polls initial_state) = 1 \<and>
   trigger_sync ''1700000000000-abc'' (Inr ()) failing_polls =
     \<lparr>reported = SpinnerFail ''fetch failed'', exit_code = 1\<rparr> \<and>
   reported (trigger_sync ''1700000000000-abc'' (Inr ()) failing_polls) \<noteq> StatusUnknownTimeout"
proof -
  have "poll_while ''1700000000000-abc'' failing_polls initial_state =
      \<lparr>attempts = Suc 0, completed = False, result = None, slept = 2000 * Suc 0, thrown = Some ''fetch failed''\<rparr>"
    by (rule poll_while_first_thrown) (simp_all add: maxAttempts_def failing_polls_def)
  then show ?thesis
    by (simp add: trigger_sync_def finds_run_def fetched_def failing_polls_def)
qed

text \<open>
  C1, amended: (1) an iteration sets \<^verbatim>\<open>completed\<close> exactly when the fetched job has a
  \<^verbatim>\<open>lastRunAt\<close> and the poll time minus it is below 30000 ms; (2) at the first such
  iteration \<open>k\<close>, every earlier request having succeeded, the loop stops after \<open>k + 1\<close>
  attempts and the command reports failed for a nonzero \<^verbatim>\<open>failCount\<close> and success
  otherwise; (3) if all 150 requests succeed and none finds such a run, the command
  reports a timeout; (4) if a request throws before any run is found, the command
  reports that error and exits with status 1.
\<close>

theorem sync_trigger_report:
  "(completed (poll_body jobId p st) \<longleftrightarrow> completed st \<or> finds_run jobId p) \<and>
   (\<forall>k j. k < 150 \<and> (\<forall>i<k. poll_ok (env i) \<and> \<not> finds_run jobId (env i)) \<and>
       fetched jobId (env k) = Some j \<and> is_triggered_run j (now (env k)) \<longrightarrow>
       (\<exists>t. lastRunAt j = Some t \<and>
          attempts (poll_while jobId env initial_state) = Suc k \<and>
          trigger_sync jobId (Inr ()) env =
            \<lparr>reported = (if failCount j \<noteq> 0 then ExecutionFailed t else CompletedSuccessfully t),
             exit_code = 0\<rparr>)) \<and>
   ((\<forall>i<150. poll_ok (env i) \<and> \<not> finds_run jobId (env i)) \<longrightarrow>
       trigger_sync jobId (Inr ()) env = \<lparr>reported = StatusUnknownTimeout, exit_code = 0\<rparr>) \<and>
   (\<forall>k e. k < 150 \<and> (\<forall>i<k. poll_ok (env i) \<and> \<not> finds_run jobId (env i)) \<and>
       response (env k) = Inl e \<longrightarrow>
       trigger_sync jobId (Inr ()) env = \<lparr>reported = SpinnerFail e, exit_code = 1\<rparr>)"
proof (intro conjI allI impI)
  show "completed (poll_body jobId p st) \<longleftrightarrow> completed st \<or> finds_run jobId p"
    by (rule completed_poll_body)
next
  fix k j
  assume h: "k < 150 \<and> (\<forall>i<k. poll_ok (env i) \<and> \<not> finds_run jobId (env i)) \<and>
       fetched jobId (env k) = Some j \<and> is_triggered_run j (now (env k))"
  then obtain t where t: "lastRunAt j = Some t"
    and w: "poll_while jobId env initial_state =
      \<lparr>attempts = Suc k, completed = True,
       result = Some \<lparr>status = (if failCount j \<noteq> 0 then Failed else Success), run_lastRunAt = t\<rparr>,
       slept = 2000 * Suc k, thrown = None\<rparr>"
    using poll_while_first_found[of k env jobId j] by (auto simp: maxAttempts_def)
  show "\<exists>t. lastRunAt j = Some t \<and>
          attempts (poll_while jobId env initial_state) = Suc k \<and>
          trigger_sync jobId (Inr ()) env =
            \<lparr>reported = (if failCount j \<noteq> 0 then ExecutionFailed t else CompletedSuccessfully t),
             exit_code = 0\<rparr>"
    using t w by (simp add: trigger_sync_def)
next
  assume "\<forall>i<150. poll_ok (env i) \<and> \<not> finds_run jobId (env i)"
  then have "poll_while jobId env initial_state =
      \<lparr>attempts = maxAttempts, completed = False, result = None, slept = 2000 * maxAttempts, thrown = None\<rparr>"
    by (intro poll_while_none_found) (simp add: maxAttempts_def)
  then show "trigger_sync jobId (Inr ()) env = \<lparr>reported = StatusUnknownTimeout, exit_code = 0\<rparr>"
    by (simp add: trigger_sync_def)
next
  fix k e
  assume h: "k < 150 \<and> (\<forall>i<k. poll_ok (env i) \<and> \<not> finds_run jobId (env i)) \<and> response (env k) = Inl e"
  then have "poll_while jobId env initial_state =
      \<lparr>attempts = Suc k, completed = False, result = None, slept = 2000 * Suc k, thrown = Some e\<rparr>"
    by (intro poll_while_first_thrown) (simp_all add: maxAttempts_def)
  then show "trigger_sync jobId (Inr ()) env = \<lparr>reported = SpinnerFail e, exit_code = 1\<rparr>"
    by (simp add: trigger_sync_def)
qed

theorem sync_trigger_report_witness:
  "trigger_sync ''1700000000000-abc'' (Inr ()) finishing_polls =
     \<lparr>reported = ExecutionFailed (Time 1700000003000), exit_code = 0\<rparr> \<and>
   attempts (poll_while ''1700000000000-abc'' finishing_polls initial_state) = 2 \<and>
   trigger_sync ''1700000000000-abc'' (Inr ()) idle_polls =
     \<lparr>reported = StatusUnknownTimeout, exit_code = 0\<rparr> \<and>
   trigger_sync ''1700000000000-abc'' (Inr ()) failing_polls =
     \<lparr>reported = SpinnerFail ''fetch failed'', exit_code = 1\<rparr>"
proof -
  let ?id = "''1700000000000-abc''"
  let ?j = "\<lparr>job_id = ?id, lastRunAt = Some (Time 1700000003000), failCount = 2\<rparr>"
  have found: "(1::nat) < 150 \<and> (\<forall>i<1. poll_ok (finishing_polls i) \<and> \<not> finds_run ?id (finishing_polls i)) \<and>
       fetched ?id (finishing_polls 1) = Some ?j \<and> is_triggered_run ?j (now (finishing_polls 1))"
    by (simp add: finishing_polls_def poll_ok_def finds_run_def fetched_def find_job_def is_triggered_run_def)
  have idle: "\<forall>i<150. poll_ok (idle_polls i) \<and> \<not> finds_run ?id (idle_polls i)"
    by (simp add: idle_polls_def poll_ok_def finds_run_def fetched_def find_job_def is_triggered_run_def)
  have failing: "(0::nat) < 150 \<and> (\<forall>i<0. poll_ok (failing_polls i) \<and> \<not> finds_run ?id (failing_polls i)) \<and>
       response (failing_polls 0) = Inl ''fetch failed''"
    by (simp add: failing_polls_def)
  note r1 = sync_trigger_report[where jobId = ?id and env = finishing_polls, THEN conjunct2, THEN conjunct1, rule_format, OF found]
  note r2 = sync_trigger_report[where jobId = ?id and env = idle_polls, THEN conjunct2, THEN conjunct2, THEN conjunct1, THEN mp, OF idle]
  note r3 = sync_trigger_report[where jobId = ?id and env = failing_polls, THEN conjunct2, THEN conjunct2, THEN conjunct2, rule_format, OF failing]
  from r1 r2 r3 show ?thesis by auto
qed

text \<open>
  C2: the loop terminates for every sequence of responses (\<open>poll_while\<close> is a total
  function, by the termination proof above); its body runs at most 150 times, 2000 ms
  are waited in each run of the body, and an iteration that attributes a run is the
  last one.
\<close>

theorem poll_loop_terminates:
  "attempts (poll_while jobId env initial_state) \<le> 150 \<and>
   slept (poll_while jobId env initial_state) = 2000 * attempts (poll_while jobId env initial_state) \<and>
   (\<forall>i. i < attempts (poll_while jobId env initial_state) \<and> finds_run jobId (env i) \<longrightarrow>
        attempts (poll_while jobId env initial_state) = Suc i)"
proof -
  let ?n = "attempts (poll_while jobId env initial_state)"
  have inv: "?n \<le> maxAttempts \<and> attempts initial_state \<le> ?n \<and>
     slept (poll_while jobId env initial_state) = slept initial_state + 2000 * (?n - attempts initial_state) \<and>
     (\<forall>i. attempts initial_state \<le> i \<and> Suc i < ?n \<longrightarrow> poll_ok (env i) \<and> \<not> finds_run jobId (env i))"
    by (rule poll_while_invariant) (simp add: initial_state_def maxAttempts_def)
  have "?n = Suc i" if "i < ?n" and "finds_run jobId (env i)" for i
  proof -
    from inv that(2) have "\<not> Suc i < ?n" by (auto simp: initial_state_def)
    with that(1) show ?thesis by simp
  qed
  with inv show ?thesis by (auto simp: initial_state_def maxAttempts_def)
qed

theorem poll_loop_terminates_witness:
  "finds_run ''1700000000000-abc'' (finishing_polls 1) \<and>
   attempts (poll_while ''1700000000000-abc'' finishing_polls initial_state) = 2 \<and>
   slept (poll_while ''1700000000000-abc'' finishing_polls initial_state) = 4000"
proof -
  let ?id = "''1700000000000-abc''"
  let ?n = "attempts (poll_while ?id finishing_polls initial_state)"
  have f: "finds_run ?id (finishing_polls 1)"
    by (simp add: finishing_polls_def finds_run_def fetched_def find_job_def is_triggered_run_def)
  have n: "1 < ?n"
    by (simp add: poll_while.simps poll_body_def initial_state_def maxAttempts_def finishing_polls_def
        find_job_def Let_def)
  from poll_loop_terminates[of ?id finishing_polls] f n show ?thesis by auto
qed

section \<open>Config store and API client: facts and claims\<close>

subsection \<open>Facts about objects and the config file\<close>

lemma map_of_assign: "map_of (assign t s) = map_of t ++ map_of (rev s)"
proof (induction s arbitrary: t)
  case Nil
  then show ?case by (simp add: assign_def)
next
  case (Cons x s)
  obtain k v where x: "x = (k, v)" by (cases x)
  have "map_of (assign t (x # s)) = map_of (assign (AList.update k v t) s)"
    by (simp add: assign_def x)
  also have "\<dots> = map_of (AList.update k v t) ++ map_of (rev s)"
    by (rule Cons.IH)
  also have "\<dots> = map_of t ++ map_of (rev (x # s))"
    by (rule ext) (simp add: x update_conv' map_add_def split: option.split)
  finally show ?case .
qed

lemma distinct_assign: "distinct (map fst t) \<Longrightarrow> distinct (map fst (assign t s))"
  by (induction s arbitrary: t) (auto simp: assign_def distinct_update)

lemma map_of_rev_distinct: "distinct (map fst xs) \<Longrightarrow> map_of (rev xs) = map_of xs"
  by (rule map_of_inject_set[THEN iffD2]) (simp_all add: rev_map[symmetric])

lemma ensureConfigDir_ok:
  "dir_exists fs \<or> dir_creatable fs \<Longrightarrow> ensureConfigDir fs = Inr (fs\<lparr>dir_exists := True\<rparr>)"
  by (auto simp: ensureConfigDir_def)

lemma loadConfig_ok:
  "dir_exists fs \<or> dir_creatable fs \<Longrightarrow>
   loadConfig fs =
     Inr (case config_file fs of Holds (Wellformed v) \<Rightarrow> v | _ \<Rightarrow> default_config,
          fs\<lparr>dir_exists := True\<rparr>)"
  by (simp add: loadConfig_def ensureConfigDir_ok existsSync_CONFIG_FILE_def
      readFileSync_CONFIG_FILE_def JSON_parse_def split: config_file.split file_text.split)

lemma saveConfig_ok:
  "dir_exists fs \<or> dir_creatable fs \<Longrightarrow> file_writable fs \<Longrightarrow>
   saveConfig fs config =
     Inr (fs\<lparr>dir_exists := True,
            config_file := Holds (Wellformed (JObj (assign (assign []
              (own_props (case config_file fs of Holds (Wellformed v) \<Rightarrow> v | _ \<Rightarrow> default_config)))
              config)))\<rparr>)"
  by (simp add: saveConfig_def ensureConfigDir_ok loadConfig_ok writeFileSync_CONFIG_FILE_def
      JSON_stringify_def Let_def)

lemma saveConfig_returns:
  "saveConfig fs config = Inr fs1 \<Longrightarrow> (dir_exists fs \<or> dir_creatable fs) \<and> file_writable fs"
  by (auto simp: saveConfig_def ensureConfigDir_def loadConfig_def writeFileSync_CONFIG_FILE_def
      Let_def split: if_splits sum.splits prod.splits)

lemma merged_lookup:
  "map_of (rev (assign (assign [] cur) config)) name =
     (case map_of (rev config) name of Some v \<Rightarrow> Some v | None \<Rightarrow> map_of (rev cur) name)"
proof -
  have d: "distinct (map fst (assign (assign [] cur) config))"
    by (intro distinct_assign) simp
  show ?thesis
    by (simp add: map_of_rev_distinct[OF d] map_of_assign map_add_def)
qed


subsection \<open>Claims about the config store\<close>

text \<open>
  C5: config round trip. For every \<^verbatim>\<open>apiUrl\<close> and \<^verbatim>\<open>apiKey\<close>, \<^verbatim>\<open>saveConfig\<close> with an
  object holding them followed by \<^verbatim>\<open>loadConfig\<close> returns a config with these two values,
  whatever the config file held before (nothing, an unreadable or unparseable text, any
  JSON document). \<^verbatim>\<open>saveConfig\<close> returns where the directory exists or can be created and
  the file can be written.
\<close>

theorem config_round_trip:
  "map_of (rev config) ''apiUrl'' = Some (JStr url) \<and> map_of (rev config) ''apiKey'' = Some (JStr key) \<longrightarrow>
   (\<forall>fs1. saveConfig fs config = Inr fs1 \<longrightarrow>
      (\<exists>loaded fs2. loadConfig fs1 = Inr (loaded, fs2) \<and>
         get_prop loaded ''apiUrl'' = Inr (Some (JStr url)) \<and>
         get_prop loaded ''apiKey'' = Inr (Some (JStr key)))) \<and>
   ((dir_exists fs \<or> dir_creatable fs) \<and> file_writable fs \<longrightarrow> (\<exists>fs1. saveConfig fs config = Inr fs1))"
proof (intro impI conjI allI)
  fix fs1
  assume c: "map_of (rev config) ''apiUrl'' = Some (JStr url) \<and> map_of (rev config) ''apiKey'' = Some (JStr key)"
    and s: "saveConfig fs config = Inr fs1"
  from s have env: "dir_exists fs \<or> dir_creatable fs" "file_writable fs"
    using saveConfig_returns by blast+
  with s c show "\<exists>loaded fs2. loadConfig fs1 = Inr (loaded, fs2) \<and>
         get_prop loaded ''apiUrl'' = Inr (Some (JStr url)) \<and>
         get_prop loaded ''apiKey'' = Inr (Some (JStr key))"
    by (auto simp: saveConfig_ok loadConfig_ok merged_lookup)
next
  assume "(dir_exists fs \<or> dir_creatable fs) \<and> file_writable fs"
  then show "\<exists>fs1. saveConfig fs config = Inr fs1" by (simp add: saveConfig_ok)
qed

theorem config_round_trip_witness:
  "\<exists>fs1 fs2 loaded.
      saveConfig stored_login [(''apiUrl'', JStr ''https://api.clawtick.com''), (''apiKey'', JStr ''cp_new'')] = Inr fs1 \<and>
      loadConfig fs1 = Inr (loaded, fs2) \<and>
      get_prop loaded ''apiUrl'' = Inr (Some (JStr ''https://api.clawtick.com'')) \<and>
      get_prop loaded ''apiKey'' = Inr (Some (JStr ''cp_new''))"
proof -
  let ?config = "[(''apiUrl'', JStr ''https://api.clawtick.com''), (''apiKey'', JStr ''cp_new'')]"
  have c: "map_of (rev ?config) ''apiUrl'' = Some (JStr ''https://api.clawtick.com'') \<and>
           map_of (rev ?config) ''apiKey'' = Some (JStr ''cp_new'')"
    by simp
  have e: "(dir_exists stored_login \<or> dir_creatable stored_login) \<and> file_writable stored_login"
    by (simp add: stored_login_def)
  note t = config_round_trip[of ?config "''https://api.clawtick.com''" "''cp_new''" stored_login, THEN mp, OF c]
  from t e obtain fs1 where "saveConfig stored_login ?config = Inr fs1" by blast
  with t show ?thesis by blast
qed



text \<open>
  C10, as stated: \<^verbatim>\<open>loadConfig\<close> never throws, and returns the default config when the config
  file does not exist or does not parse.

  \<^verbatim>\<open>ensureConfigDir()\<close> is called before the \<^verbatim>\<open>try\<close>: where \<^verbatim>\<open>~/.clawtick\<close> does not exist
  and cannot be created, the error of \<^verbatim>\<open>mkdirSync\<close> leaves \<^verbatim>\<open>loadConfig\<close>, although the config
  file does not exist.
\<close>

theorem loadConfig_throws_counterexample:
  "config_file readonly_home = Missing \<and> loadConfig readonly_home = Inl (SystemError ''mkdir'')"
  by (simp add: readonly_home_def loadConfig_def ensureConfigDir_def)

text \<open>
  C10, amended: where the config directory exists or can be created, \<^verbatim>\<open>loadConfig\<close>
  returns a config and throws nothing; it returns the default config
  \<^verbatim>\<open>{ apiUrl: "https://api.clawtick.com", apiKey: "" }\<close> when the config file does not exist,
  cannot be read or does not parse.
\<close>

theorem loadConfig_default:
  "(dir_exists fs \<or> dir_creatable fs \<longrightarrow>
      (\<exists>loaded fs1. loadConfig fs = Inr (loaded, fs1)) \<and>
      (config_file fs = Missing \<or> config_file fs = Unreadable \<or> config_file fs = Holds Malformed \<longrightarrow>
         (\<exists>fs1. loadConfig fs = Inr (default_config, fs1)))) \<and>
   get_prop default_config ''apiUrl'' = Inr (Some (JStr ''https://api.clawtick.com'')) \<and>
   get_prop default_config ''apiKey'' = Inr (Some (JStr []))"
  by (auto simp: loadConfig_ok default_config_def DEFAULT_API_URL_def)

theorem loadConfig_default_witness:
  "\<exists>fs1. loadConfig fresh_home = Inr (default_config, fs1)"
  using loadConfig_default[of fresh_home]
  by (simp add: fresh_home_def)

subsection \<open>Claims about the client\<close>



text \<open>
  The environment does not reach the client: the constructor gives the same client
  whatever \<^verbatim>\<open>process.env\<close> holds. Only \<^verbatim>\<open>login\<close> reads \<^verbatim>\<open>CLAWPULSE_API_KEY\<close>, to store it.
\<close>

lemma new_ApiClient_ignores_environ:
  "new_ApiClient (p\<lparr>environ := e\<rparr>) =
     (case new_ApiClient p of Inl x \<Rightarrow> Inl x | Inr (c, p1) \<Rightarrow> Inr (c, p1\<lparr>environ := e\<rparr>))"
  by (simp add: new_ApiClient_def split: sum.split prod.split)

lemma login_stores_env_key:
  "\<exists>p1 c p2. login logged_out_with_env_key None None = Inr p1 \<and>
     new_ApiClient p1 = Inr (c, p2) \<and> apiKey c = Some (JStr ''cp_live_0123456789'')"
  by (simp add: login_def logged_out_with_env_key_def given_def text_of_def saveConfig_ok
      new_ApiClient_def loadConfig_ok merged_lookup)

text \<open>
  C7 says that a command run with no stored \<^verbatim>\<open>apiKey\<close> and \<^verbatim>\<open>CLAWPULSE_API_KEY\<close> set uses
  the variable as bearer key. Here the config file has \<^verbatim>\<open>apiKey: ""\<close> and the variable is
  set: the client is built with the empty key, \<^verbatim>\<open>getStatus\<close> throws
  \<^verbatim>\<open>Not authenticated. Run: clawtick login\<close> without passing anything to \<^verbatim>\<open>fetch\<close>, and the
  \<^verbatim>\<open>status\<close> command exits with status 1.
\<close>

theorem env_key_not_used:
  "environ logged_out_with_env_key ''CLAWPULSE_API_KEY'' = Some ''cp_live_0123456789'' \<and>
   new_ApiClient logged_out_with_env_key =
     Inr (\<lparr>apiUrl = Some (JStr ''https://api.clawtick.com''), apiKey = Some (JStr [])\<rparr>,
          logged_out_with_env_key) \<and>
   getStatus \<lparr>apiUrl = Some (JStr ''https://api.clawtick.com''), apiKey = Some (JStr [])\<rparr> fetch =
     (Inl (Error ''Not authenticated. Run: clawtick login''), []) \<and>
   run_command
     \<lparr>session_rt = r, config_key = Some (JStr []),
      answers = (\<lambda>i. fst (getStatus \<lparr>apiUrl = Some (JStr ''https://api.clawtick.com''),
                                         apiKey = Some (JStr [])\<rparr> fetch)),
      polls = p\<rparr> Status =
     \<lparr>printed = [''Not authenticated. Run: clawtick login''], trace = [(GetStatus, True)],
      exit_status = 1\<rparr>"
  by (simp add: logged_out_with_env_key_def new_ApiClient_def loadConfig_def ensureConfigDir_def
      existsSync_CONFIG_FILE_def readFileSync_CONFIG_FILE_def JSON_parse_def getStatus_def request_def
      status_command_def attempt_def message_of_def)

section \<open>Validators: facts and claims\<close>

subsection \<open>Facts about patterns\<close>













subsection \<open>Facts about the validators\<close>


lemma rejected_reject: "msg \<noteq> [] \<Longrightarrow> rejected (reject msg)"
  by (simp add: rejected_def reject_def)

lemma valid_accept: "valid accept" and not_valid_reject: "\<not> valid (reject msg)"
  by (simp_all add: accept_def reject_def)





















text \<open>Whatever the input, a result that is not valid carries a non-empty error.\<close>

lemma validators_report:
  "valid (validateCronExpression cron) \<or> rejected (validateCronExpression cron)"
  "valid (validateJobName name) \<or> rejected (validateJobName name)"
  "valid (validateMessage message) \<or> rejected (validateMessage message)"
  "valid (validateChannel channel) \<or> rejected (validateChannel channel)"
  "valid (validateTelegramChatId chatId) \<or> rejected (validateTelegramChatId chatId)"
  "valid (validatePhoneNumber phone) \<or> rejected (validatePhoneNumber phone)"
  "valid (validateAgentId agentId) \<or> rejected (validateAgentId agentId)"
  "valid (validateJobId jobId) \<or> rejected (validateJobId jobId)"
  "valid (validateIntegrationType type) \<or> rejected (validateIntegrationType type)"
  "valid (validateWebhookUrl rt url) \<or> rejected (validateWebhookUrl rt url)"
  "valid (validateWebhookMethod method) \<or> rejected (validateWebhookMethod method)"
  "valid (validateWebhookHeaders rt headers) \<or> rejected (validateWebhookHeaders rt headers)"
  "valid (validateWebhookBody body) \<or> rejected (validateWebhookBody body)"
  by (simp_all add: validateCronExpression_def validateJobName_def validateMessage_def
      validateChannel_def validateTelegramChatId_def validatePhoneNumber_def validateAgentId_def
      validateJobId_def validateIntegrationType_def validateWebhookUrl_def validateWebhookMethod_def
      validateWebhookHeaders_def validateWebhookBody_def Let_def rejected_reject valid_accept
      split: option.split json.split prod.split)

text \<open>
  The fields of an expression written as words with single spaces between them are
  these words.
\<close>

lemma space_is_space: "is_space CHR '' ''"
  by (simp add: is_space_def)

lemma join_words_head:
  "ws \<noteq> [] \<Longrightarrow> list_all word ws \<Longrightarrow> join '' '' ws \<noteq> [] \<and> \<not> is_space (hd (join '' '' ws))"
proof (induction ws rule: induct_list012)
  case 1
  then show ?case by simp
next
  case (2 x)
  then show ?case by (cases x) (simp_all add: word_def)
next
  case (3 x y zs)
  then have "x \<noteq> []" "\<not> is_space (hd x)" by (cases x; simp add: word_def)+
  then show ?case by simp
qed

lemma join_words_last:
  "ws \<noteq> [] \<Longrightarrow> list_all word ws \<Longrightarrow> \<not> is_space (last (join '' '' ws))"
proof (induction ws rule: induct_list012)
  case 1
  then show ?case by simp
next
  case (2 x)
  then show ?case by (simp add: word_def list_all_iff)
next
  case (3 x y zs)
  then have "join '' '' (y # zs) \<noteq> []" using join_words_head[of "y # zs"] by simp
  then have "last (join '' '' (x # y # zs)) = last (join '' '' (y # zs))" by simp
  with 3 show ?case by simp
qed

lemma split_ws_words:
  "ws \<noteq> [] \<Longrightarrow> list_all word ws \<Longrightarrow> split_ws (join '' '' ws) = ws"
proof (induction ws rule: induct_list012)
  case 1
  then show ?case by simp
next
  case (2 x)
  then have "takeWhile (\<lambda>c. \<not> is_space c) x = x" "dropWhile (\<lambda>c. \<not> is_space c) x = []"
    by (simp_all add: word_def list_all_iff)
  then show ?case by (subst split_ws.simps) (simp add: Let_def)
next
  case (3 x y zs)
  define rest where "rest = join '' '' (y # zs)"
  have whole: "join '' '' (x # y # zs) = x @ CHR '' '' # rest" by (simp add: rest_def)
  from 3 have x: "\<forall>c \<in> set x. \<not> is_space c" by (simp add: word_def list_all_iff)
  from 3 have rest: "rest \<noteq> []" "\<not> is_space (hd rest)"
    using join_words_head[of "y # zs"] by (simp_all add: rest_def)
  have t: "takeWhile (\<lambda>c. \<not> is_space c) (x @ CHR '' '' # rest) = x"
    using x by (simp add: space_is_space)
  have d: "dropWhile (\<lambda>c. \<not> is_space c) (x @ CHR '' '' # rest) = CHR '' '' # rest"
    using x by (simp add: space_is_space)
  have d2: "dropWhile is_space (CHR '' '' # rest) = rest"
    using rest by (cases rest) (simp_all add: space_is_space)
  have "split_ws (x @ CHR '' '' # rest) = x # split_ws rest"
    by (subst split_ws.simps) (simp only: Let_def t d d2, simp)
  moreover have "split_ws rest = y # zs" using 3 by (simp add: rest_def)
  ultimately show ?case by (simp only: whole)
qed

lemma trim_words:
  "ws \<noteq> [] \<Longrightarrow> list_all word ws \<Longrightarrow> trim (join '' '' ws) = join '' '' ws"
proof -
  assume ws: "ws \<noteq> []" "list_all word ws"
  define s where "s = join '' '' ws"
  have first: "s \<noteq> []" "\<not> is_space (hd s)" and last: "\<not> is_space (last s)"
    using ws join_words_head[of ws] join_words_last[of ws] by (simp_all add: s_def)
  from first have a: "dropWhile is_space s = s" by (cases s) auto
  from first last have b: "dropWhile is_space (rev s) = rev s"
    by (cases "rev s") (auto simp: last_rev hd_rev)
  show ?thesis unfolding s_def[symmetric] by (simp add: trim_def a b)
qed

lemma cron_fields_words:
  "ws \<noteq> [] \<Longrightarrow> list_all word ws \<Longrightarrow> cron_fields (join '' '' ws) = ws"
  by (simp add: cron_fields_def trim_words split_ws_words)

lemma cron_fields_example: "cron_fields ''  0 9   * * 1-5 '' = [''0'', ''9'', ''*'', ''*'', ''1-5'']"
  by code_simp

text \<open>
  The step syntax on a star is outside \<open>fieldPattern\<close>: in the pattern the step
  \<^verbatim>\<open>(\/[0-9]+)?\<close> belongs to the numeric alternative only. The expression
  \<^verbatim>\<open>*/5 * * * *\<close>, which the error message of the validator itself gives as an example, is
  rejected.
\<close>

lemma star_step_rejected:
  "validateCronExpression ''*/5 * * * *'' =
     reject (''Invalid cron field: '' @ dq @ ''*/5'' @ dq @ nl @ nl
             @ ''Use https://crontab.guru to build expressions.'')"
  by code_simp

subsection \<open>Claims about the validators\<close>




section \<open>Commands: facts and claims\<close>

subsection \<open>Validation comes first\<close>

lemma first_error_Cons:
  "first_error (v # vs) = (if \<not> valid v then Some (error_text v) else first_error vs)"
  by (simp add: first_error_def)

lemma first_error_Nil: "first_error [] = None"
  by (simp add: first_error_def)

lemma first_error_append:
  "first_error (us @ vs) = (case first_error us of Some msg \<Rightarrow> Some msg | None \<Rightarrow> first_error vs)"
  by (induction us) (simp_all add: first_error_Cons first_error_Nil)

lemma first_error_Some_iff: "(\<exists>msg. first_error vs = Some msg) \<longleftrightarrow> list_ex (\<lambda>v. \<not> valid v) vs"
  by (induction vs) (simp_all add: first_error_Cons first_error_Nil)

lemma guarded_simps:
  "guarded [] rest = rest"
  "guarded (v # vs) rest = checked v (guarded vs rest)"
  "guarded (us @ vs) rest = guarded us (guarded vs rest)"
  "guarded (if b then us else vs) rest = (if b then guarded us rest else guarded vs rest)"
  by (simp_all add: guarded_def)

lemma guarded_first_error: "first_error vs = Some msg \<Longrightarrow> guarded vs rest = exit_1 msg"
  by (induction vs) (auto simp: guarded_simps first_error_Cons first_error_Nil checked_def)

lemma guarded_trace:
  "trace (guarded vs rest) = [] \<or> guarded vs rest = rest"
  by (induction vs) (auto simp: guarded_simps checked_def exit_1_def)

lemma jobs_create_guarded:
  "\<exists>rest. jobs_create s options = guarded (create_validations (session_rt s) options) rest"
  unfolding jobs_create_def create_validations_def Let_def checked_if_def guarded_simps
  by (simp add: guarded_simps) blast

lemma jobs_update_guarded:
  "\<exists>rest. jobs_update s jobId options = guarded (update_validations (session_rt s) options) rest"
  unfolding jobs_update_def update_validations_def Let_def checked_if_def guarded_simps
  by (simp add: guarded_simps) blast

text \<open>
  C6: in \<^verbatim>\<open>jobs create\<close> and \<^verbatim>\<open>jobs update\<close>, whenever a validator the command applies to
  its input rejects it, the command prints the error of the first validator that
  rejects, exits with status 1 and has made no call on the API client, hence no
  network request.
\<close>

theorem validation_before_request:
  "(list_ex (\<lambda>v. \<not> valid v) (create_validations (session_rt s) options) \<longrightarrow>
      (\<exists>msg. first_error (create_validations (session_rt s) options) = Some msg \<and>
             jobs_create s options = \<lparr>printed = [msg], trace = [], exit_status = 1\<rparr>)) \<and>
   (list_ex (\<lambda>v. \<not> valid v) (update_validations (session_rt s) changes) \<longrightarrow>
      (\<exists>msg. first_error (update_validations (session_rt s) changes) = Some msg \<and>
             jobs_update s jobId changes = \<lparr>printed = [msg], trace = [], exit_status = 1\<rparr>))"
proof (intro conjI impI)
  assume "list_ex (\<lambda>v. \<not> valid v) (create_validations (session_rt s) options)"
  then obtain msg where m: "first_error (create_validations (session_rt s) options) = Some msg"
    using first_error_Some_iff by blast
  obtain rest where "jobs_create s options = guarded (create_validations (session_rt s) options) rest"
    using jobs_create_guarded by blast
  with m have "jobs_create s options = exit_1 msg" by (simp add: guarded_first_error)
  with m show "\<exists>msg. first_error (create_validations (session_rt s) options) = Some msg \<and>
             jobs_create s options = \<lparr>printed = [msg], trace = [], exit_status = 1\<rparr>"
    by (simp add: exit_1_def)
next
  assume "list_ex (\<lambda>v. \<not> valid v) (update_validations (session_rt s) changes)"
  then obtain msg where m: "first_error (update_validations (session_rt s) changes) = Some msg"
    using first_error_Some_iff by blast
  obtain rest where "jobs_update s jobId changes = guarded (update_validations (session_rt s) changes) rest"
    using jobs_update_guarded by blast
  with m have "jobs_update s jobId changes = exit_1 msg" by (simp add: guarded_first_error)
  with m show "\<exists>msg. first_error (update_validations (session_rt s) changes) = Some msg \<and>
             jobs_update s jobId changes = \<lparr>printed = [msg], trace = [], exit_status = 1\<rparr>"
    by (simp add: exit_1_def)
qed

theorem validation_before_request_witness:
  "jobs_create online webhook_job =
     \<lparr>printed = [''Invalid HTTP method: PATCH'' @ nl @ nl @ ''Valid methods:'' @ nl @ ''  GET, POST, PUT, DELETE''],
      trace = [], exit_status = 1\<rparr> \<and>
   trace (jobs_update online ''1700000000000-abc'' cron_update) = [] \<and>
   exit_status (jobs_update online ''1700000000000-abc'' cron_update) = 1"
proof -
  have c: "list_ex (\<lambda>v. \<not> valid v) (create_validations (session_rt online) webhook_job)"
    by code_simp
  have u: "list_ex (\<lambda>v. \<not> valid v) (update_validations (session_rt online) cron_update)"
    by code_simp
  have fc: "first_error (create_validations (session_rt online) webhook_job) =
      Some (''Invalid HTTP method: PATCH'' @ nl @ nl @ ''Valid methods:'' @ nl @ ''  GET, POST, PUT, DELETE'')"
    by code_simp
  note t = validation_before_request[of online webhook_job cron_update "''1700000000000-abc''"]
  from t c fc have "jobs_create online webhook_job =
     \<lparr>printed = [''Invalid HTTP method: PATCH'' @ nl @ nl @ ''Valid methods:'' @ nl @ ''  GET, POST, PUT, DELETE''],
      trace = [], exit_status = 1\<rparr>"
    by auto
  moreover from t u have "trace (jobs_update online ''1700000000000-abc'' cron_update) = [] \<and>
   exit_status (jobs_update online ''1700000000000-abc'' cron_update) = 1"
    by auto
  ultimately show ?thesis by simp
qed

subsection \<open>API failures\<close>

lemma terminal_on_failure_iff:
  "terminal_on_failure r \<longleftrightarrow>
     (\<forall>i < length (trace r). snd (trace r ! i) \<longrightarrow> Suc i = length (trace r) \<and> exit_status r \<noteq> 0)"
  by (auto simp: terminal_on_failure_def list_all_iff)

lemma terminal_no_calls: "trace r = [] \<Longrightarrow> terminal_on_failure r"
  by (simp add: terminal_on_failure_iff)


lemma terminal_guarded:
  "terminal_on_failure rest \<Longrightarrow> terminal_on_failure (guarded vs rest)"
  using guarded_trace[of vs rest] by (auto intro: terminal_no_calls)
















end
